theory Spec2Isabelle
  imports Main "HOL-Library.Word"
begin

section \<open>The FTP plugin of vs-deploy (src/plugins/ftp.ts)\<close>

text \<open>
  The plugin wraps two client libraries (the npm packages \<open>ftp\<close> and \<open>jsftp\<close>) behind the
  abstract class \<open>FtpClientBase\<close> and drives them from \<open>FtpPlugin\<close>. Every operation of the
  source returns a promise; the model returns the settled promise as a value, together with
  the state the operation leaves behind. What the libraries, the server, the local file
  system and the host do is not code of the plugin: it enters every function as an explicit
  argument (an injected fault, an event, a store), so that each branch of the source is a
  branch of the model.
\<close>

subsection \<open>Values\<close>

type_synonym Buffer = "8 word list"

text \<open>
  A value passed as \<open>err\<close>. \<open>Error msg\<close> is an Error object, \<open>TypeError\<close> is what a property
  access on \<open>null\<close>/\<open>undefined\<close> throws, \<open>HadErr\<close> is the boolean \<open>true\<close> a socket passes to
  its close handler. All three are truthy. Where the source tests \<open>if (err)\<close>, the tested
  value is a \<open>js_error option\<close> and \<open>None\<close> stands for a falsy value.
\<close>

datatype js_error = Error string | TypeError | HadErr

text \<open>
  A promise as its caller sees it in the end: resolved, rejected, or \<open>Pending\<close> for good,
  when the callback it waits for is never called (a library call that is pending while the
  connection is closed under it need not call back).
\<close>

datatype 'a promise = Resolved 'a | Rejected "js_error option" | Pending

text \<open>
  Modelled from the spec: \<open>deploy_helpers.createSimplePromiseCompletedAction\<close> is not under
  src/. The engine contracts say that each operation yields its value or fails with the
  error it was given; \<open>completed(err, result)\<close> rejects with a truthy \<open>err\<close> and resolves
  with \<open>result\<close> otherwise.
\<close>

definition createSimplePromiseCompletedAction :: "js_error option \<Rightarrow> 'a \<Rightarrow> 'a promise" where
  "createSimplePromiseCompletedAction err result =
     (case err of Some e \<Rightarrow> Rejected (Some e) | None \<Rightarrow> Resolved result)"

subsection \<open>The environment of the engines\<close>

text \<open>
  The remote store: the files of the server by path, and its directories as lists of path
  components (the root is the empty list and always exists).
\<close>

record remote =
  files :: "string \<rightharpoonup> Buffer"
  dirs :: "string list set"

text \<open>The handle a library gives out; \<open>established\<close> says whether the control connection
  to the target is up and authenticated.\<close>

record lib_conn =
  established :: bool

text \<open>
  Both libraries upload with \<open>put(data, file, cb)\<close>. A fault is whatever makes the library
  call its callback with an error; without one the store holds the data under the path.
\<close>

definition lib_put :: "js_error option \<Rightarrow> Buffer \<Rightarrow> string \<Rightarrow> remote \<Rightarrow> remote \<times> js_error option" where
  "lib_put fault data path r =
     (case fault of
        Some e \<Rightarrow> (r, Some e)
      | None \<Rightarrow> (r\<lparr>files := (files r)(path \<mapsto> data)\<rparr>, None))"

text \<open>Both libraries answer \<open>get(file, cb)\<close> with an error or with a readable stream of the
  stored bytes; a path the store does not hold is refused by the server.\<close>

definition lib_get :: "js_error option \<Rightarrow> string \<Rightarrow> remote \<Rightarrow> js_error + Buffer" where
  "lib_get fault path r =
     (case fault of
        Some e \<Rightarrow> Inl e
      | None \<Rightarrow> (case files r path of
                   None \<Rightarrow> Inl (Error ''550 file not found'')
                 | Some b \<Rightarrow> Inr b))"

text \<open>A stream hands its content over in pieces; the data channel decides their size
  (\<open>Suc n\<close> bytes each, the last one possibly shorter).\<close>

fun slices :: "nat \<Rightarrow> 'a list \<Rightarrow> 'a list list" where
  "slices n [] = []"
| "slices n (x # xs) = take (Suc n) (x # xs) # slices n (drop n xs)"

text \<open>
  What happens around one download: the fault of the library call, the chunking of the data
  channel, the error flag of the socket's close event (\<open>jsftp\<close>), and for the staging file of
  the \<open>ftp\<close> variant the name \<open>TMP.tmpName\<close> hands out (\<open>None\<close>: it failed and passed no name),
  an exception of \<open>createWriteStream\<close>/\<open>pipe\<close>, the error of \<open>FS.readFile\<close>, and how many bytes
  the write stream has put into the staging file at the moment the source stream emits
  \<open>'end'\<close> (\<open>None\<close>: all of them), which is the moment the file is read.
\<close>

record get_env =
  get_fault :: "js_error option"
  chunk_size :: nat
  close_hadErr :: bool
  tmp_name :: "string option"
  write_throws :: "js_error option"
  read_fault :: "js_error option"
  staged_at_end :: "nat option"

type_synonym localfs = "string \<rightharpoonup> Buffer"

subsection \<open>The engines\<close>

datatype engine_kind = FtpClient | JsFTPClient

text \<open>An instance of \<open>FtpClient\<close> or \<open>JsFTPClient\<close>: its class and its field
  \<open>_connection\<close>, read through the getter \<open>connection\<close> (\<open>None\<close> for \<open>undefined\<close> and
  \<open>null\<close>).\<close>

record client =
  kind :: engine_kind
  own_connection :: "lib_conn option"

text \<open>\<open>put\<close> is the same text in both classes: a missing buffer becomes \<open>Buffer.alloc(0)\<close>, a
  call on a missing connection throws a TypeError that the \<open>catch\<close> turns into a rejection,
  and the promise resolves with the buffer that was sent.\<close>

definition FtpClient_put ::
  "js_error option \<Rightarrow> client \<Rightarrow> string \<Rightarrow> Buffer option \<Rightarrow> remote \<Rightarrow> remote \<times> Buffer promise" where
  "FtpClient_put fault c file data0 r =
     (let data = (case data0 of None \<Rightarrow> [] | Some b \<Rightarrow> b) in
      case own_connection c of
        None \<Rightarrow> (r, Rejected (Some TypeError))
      | Some conn \<Rightarrow>
          (case lib_put fault data file r of
             (r', err) \<Rightarrow> (r', createSimplePromiseCompletedAction err data)))"

definition JsFTPClient_put ::
  "js_error option \<Rightarrow> client \<Rightarrow> string \<Rightarrow> Buffer option \<Rightarrow> remote \<Rightarrow> remote \<times> Buffer promise" where
  "JsFTPClient_put fault c file data0 r =
     (let data = (case data0 of None \<Rightarrow> [] | Some b \<Rightarrow> b) in
      case own_connection c of
        None \<Rightarrow> (r, Rejected (Some TypeError))
      | Some conn \<Rightarrow>
          (case lib_put fault data file r of
             (r', err) \<Rightarrow> (r', createSimplePromiseCompletedAction err data)))"

text \<open>\<open>stream.pipe(FS.createWriteStream(tmpFile))\<close>: the staging file is created empty and
  receives the chunks in order.\<close>

definition pipe_to_file :: "Buffer list \<Rightarrow> string \<Rightarrow> localfs \<Rightarrow> localfs" where
  "pipe_to_file chunks tmpFile fs = fs(tmpFile \<mapsto> foldl (\<lambda>written chunk. written @ chunk) [] chunks)"

text \<open>\<open>deleteTempFile\<close>: unlink the staging file if it exists, then complete.\<close>

definition deleteTempFile ::
  "string \<Rightarrow> js_error option \<Rightarrow> Buffer \<Rightarrow> localfs \<Rightarrow> localfs \<times> Buffer promise" where
  "deleteTempFile tmpFile err data fs =
     ((if fs tmpFile \<noteq> None then fs(tmpFile := None) else fs),
      createSimplePromiseCompletedAction err data)"

text \<open>
  \<open>FtpClient.get\<close>: the stream is staged in a temporary file, read back when the stream
  ends (the handler is on \<open>'end'\<close> of the source, not on the write stream), and the file is
  removed on every path that created it. The error \<open>TMP.tmpName\<close>
  passes is shadowed and never looked at; without a name \<open>createWriteStream\<close> throws.
\<close>

definition FtpClient_get ::
  "get_env \<Rightarrow> client \<Rightarrow> string \<Rightarrow> remote \<Rightarrow> localfs \<Rightarrow> localfs \<times> Buffer promise" where
  "FtpClient_get env c file r fs =
     (case own_connection c of
        None \<Rightarrow> (fs, Rejected (Some TypeError))
      | Some conn \<Rightarrow>
          (case lib_get (get_fault env) file r of
             Inl e \<Rightarrow> (fs, Rejected (Some e))
           | Inr content \<Rightarrow>
               (case tmp_name env of
                  None \<Rightarrow> (fs, Rejected (Some TypeError))
                | Some tmpFile \<Rightarrow>
                    (case write_throws env of
                       Some e \<Rightarrow> deleteTempFile tmpFile (Some e) [] fs
                     | None \<Rightarrow>
                         (let fs1 = pipe_to_file (slices (chunk_size env) content) tmpFile fs in
                          case read_fault env of
                            Some e \<Rightarrow> deleteTempFile tmpFile (Some e) [] fs1
                          | None \<Rightarrow>
                              (case fs1 tmpFile of
                                 None \<Rightarrow> deleteTempFile tmpFile (Some (Error ''ENOENT'')) [] fs1
                               | Some written \<Rightarrow>
                                   (let data = (case staged_at_end env of
                                                  None \<Rightarrow> written
                                                | Some n \<Rightarrow> take n written)
                                    in deleteTempFile tmpFile None data fs1)))))))"

text \<open>
  \<open>JsFTPClient.get\<close>: every chunk of the socket is appended to \<open>result\<close>, which starts as
  \<open>Buffer.alloc(0)\<close>; the close event completes with the accumulated buffer, or with the
  error flag when the socket closed on an error.
\<close>

definition JsFTPClient_get ::
  "get_env \<Rightarrow> client \<Rightarrow> string \<Rightarrow> remote \<Rightarrow> localfs \<Rightarrow> localfs \<times> Buffer promise" where
  "JsFTPClient_get env c file r fs =
     (case own_connection c of
        None \<Rightarrow> (fs, Rejected (Some TypeError))
      | Some conn \<Rightarrow>
          (case lib_get (get_fault env) file r of
             Inl e \<Rightarrow> (fs, Rejected (Some e))
           | Inr content \<Rightarrow>
               (let result = foldl (\<lambda>result data. result @ data) [] (slices (chunk_size env) content) in
                (fs, createSimplePromiseCompletedAction
                       (if close_hadErr env then Some HadErr else None) result))))"

text \<open>The call through \<open>FtpClientBase\<close> dispatches on the class of the instance.\<close>

definition client_put ::
  "js_error option \<Rightarrow> client \<Rightarrow> string \<Rightarrow> Buffer option \<Rightarrow> remote \<Rightarrow> remote \<times> Buffer promise" where
  "client_put fault c file data r =
     (case kind c of
        FtpClient \<Rightarrow> FtpClient_put fault c file data r
      | JsFTPClient \<Rightarrow> JsFTPClient_put fault c file data r)"

definition client_get ::
  "get_env \<Rightarrow> client \<Rightarrow> string \<Rightarrow> remote \<Rightarrow> localfs \<Rightarrow> localfs \<times> Buffer promise" where
  "client_get env c file r fs =
     (case kind c of
        FtpClient \<Rightarrow> FtpClient_get env c file r fs
      | JsFTPClient \<Rightarrow> JsFTPClient_get env c file r fs)"

text \<open>A download in which nothing goes wrong: no fault of the library, a clean close, and a
  staging file that can be named, written and read, and is complete when it is read.\<close>

definition get_undisturbed :: "get_env \<Rightarrow> bool" where
  "get_undisturbed env \<longleftrightarrow>
     get_fault env = None \<and> \<not> close_hadErr env \<and> tmp_name env \<noteq> None
     \<and> write_throws env = None \<and> read_fault env = None \<and> staged_at_end env = None"

subsection \<open>Directories\<close>

text \<open>A path addresses a directory by its non-empty components between slashes; the
  server's working directory is taken to be the root.\<close>

fun split_on :: "char \<Rightarrow> string \<Rightarrow> string \<Rightarrow> string list" where
  "split_on s cur [] = (if cur = [] then [] else [cur])"
| "split_on s cur (c # cs) =
     (if c = s then (if cur = [] then split_on s [] cs else cur # split_on s [] cs)
      else split_on s (cur @ [c]) cs)"

definition split_path :: "string \<Rightarrow> string list" where
  "split_path path = split_on (CHR ''/'') [] path"

fun prefixes_ne :: "'a list \<Rightarrow> 'a list list" where
  "prefixes_ne [] = []"
| "prefixes_ne (x # xs) = [x] # map ((#) x) (prefixes_ne xs)"

text \<open>The server's \<open>MKD\<close>: it makes one directory, and refuses when the directory exists or
  when its parent does not.\<close>

definition server_mkd :: "string \<Rightarrow> remote \<Rightarrow> js_error + remote" where
  "server_mkd path r =
     (let ps = split_path path in
      if ps = [] \<or> ps \<in> dirs r then Inl (Error ''550 directory exists'')
      else if butlast ps \<noteq> [] \<and> butlast ps \<notin> dirs r then Inl (Error ''550 no such directory'')
      else Inr (r\<lparr>dirs := insert ps (dirs r)\<rparr>))"

text \<open>\<open>mkdir(path, recursive, cb)\<close> of the \<open>ftp\<close> package: with \<open>recursive\<close> it walks the
  components and makes each one that is missing; without, it sends one \<open>MKD\<close>.\<close>

definition lib_ftp_mkdir :: "js_error option \<Rightarrow> string \<Rightarrow> bool \<Rightarrow> remote \<Rightarrow> remote \<times> js_error option" where
  "lib_ftp_mkdir fault path recursive r =
     (case fault of
        Some e \<Rightarrow> (r, Some e)
      | None \<Rightarrow>
          if recursive then (r\<lparr>dirs := dirs r \<union> set (prefixes_ne (split_path path))\<rparr>, None)
          else (case server_mkd path r of Inl e \<Rightarrow> (r, Some e) | Inr r' \<Rightarrow> (r', None)))"

text \<open>\<open>raw.mkd(path, cb)\<close> of the \<open>jsftp\<close> package sends the \<open>MKD\<close> command as it is.\<close>

definition lib_jsftp_raw_mkd :: "js_error option \<Rightarrow> string \<Rightarrow> remote \<Rightarrow> remote \<times> js_error option" where
  "lib_jsftp_raw_mkd fault path r =
     (case fault of
        Some e \<Rightarrow> (r, Some e)
      | None \<Rightarrow> (case server_mkd path r of Inl e \<Rightarrow> (r, Some e) | Inr r' \<Rightarrow> (r', None)))"

definition FtpClient_mkdir ::
  "js_error option \<Rightarrow> client \<Rightarrow> string \<Rightarrow> remote \<Rightarrow> remote \<times> string promise" where
  "FtpClient_mkdir fault c dir r =
     (case own_connection c of
        None \<Rightarrow> (r, Rejected (Some TypeError))
      | Some conn \<Rightarrow>
          (case lib_ftp_mkdir fault dir True r of
             (r', err) \<Rightarrow> (r', createSimplePromiseCompletedAction err dir)))"

definition JsFTPClient_mkdir ::
  "js_error option \<Rightarrow> client \<Rightarrow> string \<Rightarrow> remote \<Rightarrow> remote \<times> string promise" where
  "JsFTPClient_mkdir fault c dir r =
     (case own_connection c of
        None \<Rightarrow> (r, Rejected (Some TypeError))
      | Some conn \<Rightarrow>
          (case lib_jsftp_raw_mkd fault dir r of
             (r', err) \<Rightarrow> (r', createSimplePromiseCompletedAction err dir)))"

subsection \<open>Connecting and closing\<close>

record DeployTargetFTP =
  dir :: "string option"
  host :: "string option"
  port :: "nat option"
  rejectUnauthorized :: "bool option"
  user :: "string option"
  password :: "string option"
  secure :: "bool option"
  connTimeout :: "nat option"
  pasvTimeout :: "nat option"
  keepalive :: "nat option"
  engine :: "string option"

text \<open>
  What the library does when it is asked for a connection: its constructor (or its
  \<open>connect\<close>) throws at once, or it returns and later the connection comes up (\<open>Ready\<close>), or
  later it emits \<open>'error'\<close> with the given argument, as it does when the host cannot be
  reached or the login is refused. The options computed from the target (host, port, user,
  password, TLS, timeouts) go to the library unchanged and act through this outcome only.
\<close>

datatype connect_env = Ready | ErrorEvent "js_error option" | Throws js_error

text \<open>
  \<open>FtpClient.connect\<close>. \<open>completed\<close> runs once, for the first event. On its success branch it
  stores the local \<open>conn\<close> in \<open>_connection\<close>; when the instance is connected already, \<open>conn\<close>
  has not been assigned and is \<open>undefined\<close>.
\<close>

definition FtpClient_connect :: "connect_env \<Rightarrow> DeployTargetFTP \<Rightarrow> client \<Rightarrow> client \<times> bool promise" where
  "FtpClient_connect env target c =
     (if own_connection c \<noteq> None then (c\<lparr>own_connection := None\<rparr>, Resolved False)
      else case env of
        Throws e \<Rightarrow> (c, Rejected (Some e))
      | ErrorEvent (Some e) \<Rightarrow> (c, Rejected (Some e))
      | ErrorEvent None \<Rightarrow> (c\<lparr>own_connection := Some \<lparr>established = False\<rparr>\<rparr>, Resolved True)
      | Ready \<Rightarrow> (c\<lparr>own_connection := Some \<lparr>established = True\<rparr>\<rparr>, Resolved True))"

text \<open>
  \<open>JsFTPClient.connect\<close> constructs the client object and completes in the same turn; it
  registers no handler, so what the library reports afterwards does not reach the promise.
  When the constructor returns, the socket has only been created.
\<close>

definition JsFTPClient_connect :: "connect_env \<Rightarrow> DeployTargetFTP \<Rightarrow> client \<Rightarrow> client \<times> bool promise" where
  "JsFTPClient_connect env target c =
     (if own_connection c \<noteq> None then (c\<lparr>own_connection := None\<rparr>, Resolved False)
      else case env of
        Throws e \<Rightarrow> (c, Rejected (Some e))
      | _ \<Rightarrow> (c\<lparr>own_connection := Some \<lparr>established = False\<rparr>\<rparr>, Resolved True))"

definition client_connect :: "connect_env \<Rightarrow> DeployTargetFTP \<Rightarrow> client \<Rightarrow> client \<times> bool promise" where
  "client_connect env target c =
     (case kind c of
        FtpClient \<Rightarrow> FtpClient_connect env target c
      | JsFTPClient \<Rightarrow> JsFTPClient_connect env target c)"

text \<open>\<open>end\<close> is the same in both classes up to the library call (\<open>conn.end()\<close>,
  \<open>conn.destroy()\<close>), which may throw; the field is cleared only after the call returned.\<close>

definition FtpClient_end :: "js_error option \<Rightarrow> client \<Rightarrow> client \<times> bool promise" where
  "FtpClient_end throws c =
     (case own_connection c of
        Some conn \<Rightarrow>
          (case throws of
             Some e \<Rightarrow> (c, Rejected (Some e))
           | None \<Rightarrow> (c\<lparr>own_connection := None\<rparr>, Resolved True))
      | None \<Rightarrow> (c, Resolved False))"

definition JsFTPClient_end :: "js_error option \<Rightarrow> client \<Rightarrow> client \<times> bool promise" where
  "JsFTPClient_end throws c =
     (case own_connection c of
        Some conn \<Rightarrow>
          (case throws of
             Some e \<Rightarrow> (c, Rejected (Some e))
           | None \<Rightarrow> (c\<lparr>own_connection := None\<rparr>, Resolved True))
      | None \<Rightarrow> (c, Resolved False))"

definition client_end :: "js_error option \<Rightarrow> client \<Rightarrow> client \<times> bool promise" where
  "client_end throws c =
     (case kind c of
        FtpClient \<Rightarrow> FtpClient_end throws c
      | JsFTPClient \<Rightarrow> JsFTPClient_end throws c)"

section \<open>The plugin\<close>

subsection \<open>Session context, options, collaborators\<close>

text \<open>
  \<open>cachedRemoteDirectories\<close> starts as the object \<open>{}\<close> and receives the empty array under
  the key of each directory that was found or made; the model keeps the set of its own keys,
  and \<open>None\<close> once \<open>destroy\<close> has deleted the property. \<open>connection\<close> is \<open>None\<close> for
  \<open>undefined\<close>.
\<close>

record FTPContext =
  cachedRemoteDirectories :: "string set option"
  connection :: "client option"
  hasCancelled :: bool

text \<open>An object literal inherits the properties of \<open>Object.prototype\<close>; reading one of
  these keys from \<open>{}\<close> yields a function or an object, never \<open>undefined\<close>.\<close>

definition Object_prototype_keys :: "string set" where
  "Object_prototype_keys =
     {''constructor'', ''hasOwnProperty'', ''isPrototypeOf'', ''propertyIsEnumerable'',
      ''toLocaleString'', ''toString'', ''valueOf'', ''__proto__'',
      ''__defineGetter__'', ''__defineSetter__'', ''__lookupGetter__'', ''__lookupSetter__''}"

text \<open>\<open>isNullOrUndefined(ctx.cachedRemoteDirectories[targetDirectory])\<close>; indexing the
  deleted property throws.\<close>

definition cache_entry_missing :: "string set option \<Rightarrow> string \<Rightarrow> js_error + bool" where
  "cache_entry_missing cache key =
     (case cache of
        None \<Rightarrow> Inl TypeError
      | Some ks \<Rightarrow> Inr (key \<notin> ks \<and> key \<notin> Object_prototype_keys))"

text \<open>The options of one call: whether the host supplied each hook, and the base directory.
  A hook that is called is recorded in the trace of the call.\<close>

record DeployFileOptions =
  onCompleted :: bool
  onBeforeDeploy :: bool
  baseDirectory :: "string option"

text \<open>
  Collaborators that are not code of the plugin: the resolver
  \<open>deploy_helpers.toRelativeTargetPath\<close> (\<open>None\<close> for its result \<open>false\<close>) and Node's
  \<open>path\<close> module.
\<close>

record externals =
  toRelativeTargetPath :: "string \<Rightarrow> DeployTargetFTP \<Rightarrow> string option \<Rightarrow> string option"
  path_sep :: char
  path_join :: "string \<Rightarrow> string \<Rightarrow> string"
  path_dirname :: "string \<Rightarrow> string"

record outcome =
  canceled :: bool
  error :: "js_error option"
  file_path :: string
  target :: DeployTargetFTP

text \<open>
  What a call does to the outside, in order: the two hooks of the host
  (\<open>BeforeDeploy file destination\<close>, \<open>Completed\<close>), the calls on the engine, the read of the
  local file, an exception that leaves the function, and the steps of the lifecycle.
\<close>

datatype event =
    BeforeDeploy string string
  | Cwd string
  | Mkdir string
  | ReadFile string
  | Put string Buffer
  | Get string
  | Completed outcome
  | Uncaught js_error
  | Connect engine_kind
  | DeleteCache
  | End

text \<open>
  The environment of one file: how each asynchronous step ends (an engine call resolves,
  rejects, or never settles; the read of the local file always calls back), and whether the
  host raises the cancellation while the step is pending. \<open>end_throws\<close> is the exception of
  the library's close call, should the cancellation hook run.
\<close>

record file_env =
  cwd_result :: "string promise"
  cancel_in_cwd :: bool
  mkdir_result :: "string promise"
  cancel_in_mkdir :: bool
  read_result :: "js_error + Buffer"
  cancel_in_read :: bool
  put_result :: "Buffer promise"
  cancel_in_put :: bool
  get_result :: "Buffer promise"
  cancel_in_get :: bool
  end_throws :: "js_error option"

subsection \<open>Helpers of the module\<close>

definition getDirFromTarget :: "DeployTargetFTP \<Rightarrow> string" where
  "getDirFromTarget t =
     (let d = (case dir t of None \<Rightarrow> [] | Some s \<Rightarrow> s) in
      if d = [] then ''/'' else d)"

text \<open>
  Modelled from the spec: \<open>deploy_helpers.replaceAllStrings\<close> is not under src/. Remote paths
  use forward-slash separators regardless of the local convention: every occurrence of the
  separator \<open>Path.sep\<close>, a single character, becomes a slash.
\<close>

definition toFTPPath :: "externals \<Rightarrow> string \<Rightarrow> string" where
  "toFTPPath x path = map (\<lambda>c. if c = path_sep x then CHR ''/'' else c) path"

subsection \<open>Cancellation\<close>

text \<open>The callback registered with \<open>onCancelling\<close>: it sets the flag and closes the engine;
  a rejection of \<open>end\<close> is logged only.\<close>

definition onCancelling :: "js_error option \<Rightarrow> FTPContext \<Rightarrow> FTPContext" where
  "onCancelling throws ctx =
     ctx\<lparr>hasCancelled := True,
         connection := map_option (\<lambda>conn. fst (client_end throws conn)) (connection ctx)\<rparr>"

text \<open>While a promise or a callback is pending, other events run; the one of interest is
  the cancellation.\<close>

definition pending :: "bool \<Rightarrow> js_error option \<Rightarrow> FTPContext \<Rightarrow> FTPContext" where
  "pending cancel throws ctx = (if cancel then onCancelling throws ctx else ctx)"

subsection \<open>Upload\<close>

text \<open>The closure \<open>completed\<close> of \<open>deployFileWithContext\<close> reads \<open>ctx.hasCancelled\<close> when
  it is called. After the directory lookup it is called from the handlers of \<open>cwd\<close>,
  \<open>mkdir\<close>, \<open>readFile\<close> and \<open>put\<close> only.\<close>

definition completed ::
  "DeployFileOptions \<Rightarrow> FTPContext \<Rightarrow> string \<Rightarrow> DeployTargetFTP \<Rightarrow> js_error option \<Rightarrow> event list" where
  "completed opts ctx f t err =
     (if onCompleted opts
      then [Completed \<lparr>canceled = hasCancelled ctx, error = err, file_path = f, target = t\<rparr>]
      else [])"

text \<open>
  The closure \<open>uploadFile\<close>. It is reached with \<open>initDirCache\<close> only after the lookup in the
  cache went through, so the cache object exists when the key is assigned.
\<close>

definition uploadFile ::
  "DeployFileOptions \<Rightarrow> file_env \<Rightarrow> string \<Rightarrow> DeployTargetFTP \<Rightarrow> string \<Rightarrow> string \<Rightarrow> bool
   \<Rightarrow> FTPContext \<Rightarrow> FTPContext \<times> event list" where
  "uploadFile opts env f t targetFile targetDirectory initDirCache ctx =
     (if hasCancelled ctx then (ctx, completed opts ctx f t None)
      else
        let ctx1 = (if initDirCache
                    then ctx\<lparr>cachedRemoteDirectories :=
                               map_option (insert targetDirectory) (cachedRemoteDirectories ctx)\<rparr>
                    else ctx);
            ctx2 = pending (cancel_in_read env) (end_throws env) ctx1
        in case read_result env of
             Inl err \<Rightarrow> (ctx2, ReadFile f # completed opts ctx2 f t (Some err))
           | Inr data \<Rightarrow>
               if hasCancelled ctx2 then (ctx2, ReadFile f # completed opts ctx2 f t None)
               else
                 (let ctx3 = pending (cancel_in_put env) (end_throws env) ctx2 in
                  case put_result env of
                    Resolved echoed \<Rightarrow>
                      (ctx3, ReadFile f # Put targetFile data # completed opts ctx3 f t None)
                  | Rejected err \<Rightarrow>
                      (ctx3, ReadFile f # Put targetFile data # completed opts ctx3 f t err)
                  | Pending \<Rightarrow> (ctx3, [ReadFile f, Put targetFile data])))"

definition deployFileWithContext ::
  "externals \<Rightarrow> DeployFileOptions \<Rightarrow> file_env \<Rightarrow> FTPContext \<Rightarrow> string \<Rightarrow> DeployTargetFTP
   \<Rightarrow> FTPContext \<times> event list" where
  "deployFileWithContext x opts env ctx f t =
     (if hasCancelled ctx then (ctx, completed opts ctx f t None)
      else
        case toRelativeTargetPath x f t (baseDirectory opts) of
          None \<Rightarrow> (ctx, completed opts ctx f t (Some (Error ''relativePaths.couldNotResolve'')))
        | Some relativeFilePath \<Rightarrow>
           (let targetFile = toFTPPath x (path_join x (getDirFromTarget t) relativeFilePath);
                targetDirectory = toFTPPath x (path_dirname x targetFile);
                hook = (if onBeforeDeploy opts then [BeforeDeploy f targetDirectory] else [])
            in case cache_entry_missing (cachedRemoteDirectories ctx) targetDirectory of
                 Inl e \<Rightarrow> (ctx, hook @ [Uncaught e])
               | Inr False \<Rightarrow>
                   (case uploadFile opts env f t targetFile targetDirectory False ctx of
                      (ctx', tr) \<Rightarrow> (ctx', hook @ tr))
               | Inr True \<Rightarrow>
                   (let ctx1 = pending (cancel_in_cwd env) (end_throws env) ctx in
                    case cwd_result env of
                      Resolved d \<Rightarrow>
                        if hasCancelled ctx1
                        then (ctx1, hook @ Cwd targetDirectory # completed opts ctx1 f t None)
                        else (case uploadFile opts env f t targetFile targetDirectory True ctx1 of
                                (ctx', tr) \<Rightarrow> (ctx', hook @ Cwd targetDirectory # tr))
                    | Rejected err \<Rightarrow>
                        if hasCancelled ctx1
                        then (ctx1, hook @ Cwd targetDirectory # completed opts ctx1 f t None)
                        else if err \<noteq> None then
                          (let ctx2 = pending (cancel_in_mkdir env) (end_throws env) ctx1 in
                           case mkdir_result env of
                             Resolved d \<Rightarrow>
                               (case uploadFile opts env f t targetFile targetDirectory True ctx2 of
                                  (ctx', tr) \<Rightarrow>
                                    (ctx', hook @ Cwd targetDirectory # Mkdir targetDirectory # tr))
                           | Rejected err2 \<Rightarrow>
                               (ctx2, hook @ Cwd targetDirectory # Mkdir targetDirectory
                                        # completed opts ctx2 f t err2)
                           | Pending \<Rightarrow>
                               (ctx2, hook @ [Cwd targetDirectory, Mkdir targetDirectory]))
                        else (case uploadFile opts env f t targetFile targetDirectory True ctx1 of
                                (ctx', tr) \<Rightarrow> (ctx', hook @ Cwd targetDirectory # tr))
                    | Pending \<Rightarrow> (ctx1, hook @ [Cwd targetDirectory]))))"

text \<open>
  Modelled from the spec: the loop over the files of a batch is in
  \<open>DeployPluginWithContextBase\<close> (objects.ts), which is not under src/. One session drives
  one sequence of engine calls at a time: the files are processed in order against the
  same context, each with its own environment.
\<close>

fun deployFiles ::
  "externals \<Rightarrow> DeployFileOptions \<Rightarrow> DeployTargetFTP \<Rightarrow> (string \<times> file_env) list \<Rightarrow> FTPContext
   \<Rightarrow> FTPContext \<times> event list" where
  "deployFiles x opts t [] ctx = (ctx, [])"
| "deployFiles x opts t ((f, env) # rest) ctx =
     (case deployFileWithContext x opts env ctx f t of
        (ctx1, tr1) \<Rightarrow>
          (case deployFiles x opts t rest ctx1 of
             (ctx2, tr2) \<Rightarrow> (ctx2, tr1 @ tr2)))"

subsection \<open>Download\<close>

text \<open>
  \<open>downloadFileWithContext\<close>; its \<open>completed\<close> is guarded by \<open>completedInvoked\<close>, calls the
  hook and settles the promise (with \<open>undefined\<close>, here \<open>None\<close>, where no data was passed).
  It is called from the handlers of \<open>get\<close> only, so a \<open>get\<close> that never settles leaves the
  returned promise pending and the hook uncalled.
\<close>

definition download_completed ::
  "DeployFileOptions \<Rightarrow> FTPContext \<Rightarrow> string \<Rightarrow> DeployTargetFTP \<Rightarrow> js_error option
   \<Rightarrow> Buffer option \<Rightarrow> event list \<times> Buffer option promise" where
  "download_completed opts ctx f t err data =
     (completed opts ctx f t err,
      (case err of Some e \<Rightarrow> Rejected (Some e) | None \<Rightarrow> Resolved data))"

definition downloadFileWithContext ::
  "externals \<Rightarrow> DeployFileOptions \<Rightarrow> file_env \<Rightarrow> FTPContext \<Rightarrow> string \<Rightarrow> DeployTargetFTP
   \<Rightarrow> FTPContext \<times> event list \<times> Buffer option promise" where
  "downloadFileWithContext x opts env ctx f t =
     (if hasCancelled ctx then (ctx, download_completed opts ctx f t None None)
      else
        case toRelativeTargetPath x f t (baseDirectory opts) of
          None \<Rightarrow>
            (ctx, download_completed opts ctx f t (Some (Error ''relativePaths.couldNotResolve'')) None)
        | Some relativeFilePath \<Rightarrow>
           (let targetFile = toFTPPath x (path_join x (getDirFromTarget t) relativeFilePath);
                targetDirectory = toFTPPath x (path_dirname x targetFile);
                hook = (if onBeforeDeploy opts then [BeforeDeploy f targetDirectory] else []);
                ctx1 = pending (cancel_in_get env) (end_throws env) ctx
            in case get_result env of
                 Resolved data \<Rightarrow>
                   (case download_completed opts ctx1 f t None (Some data) of
                      (tr, p) \<Rightarrow> (ctx1, hook @ Get targetFile # tr, p))
               | Rejected err \<Rightarrow>
                   (case download_completed opts ctx1 f t err None of
                      (tr, p) \<Rightarrow> (ctx1, hook @ Get targetFile # tr, p))
               | Pending \<Rightarrow> (ctx1, hook @ [Get targetFile], Pending)))"

subsection \<open>Lifecycle\<close>

text \<open>
  \<open>createContext\<close>, given the collaborator \<open>deploy_helpers.normalizeString\<close> and the outcome
  of the connection attempt. The switch picks the class; without a client the promise is
  rejected and \<open>connect\<close> is not called. A rejection of \<open>connect\<close> with a falsy reason would
  take the success branch of \<open>completed\<close> without a client.
\<close>

definition select_client :: "string \<Rightarrow> client option" where
  "select_client selector =
     (if selector = [] \<or> selector = ''ftp'' then Some \<lparr>kind = FtpClient, own_connection = None\<rparr>
      else if selector = ''jsftp'' then Some \<lparr>kind = JsFTPClient, own_connection = None\<rparr>
      else None)"

definition new_context :: "client option \<Rightarrow> FTPContext" where
  "new_context conn = \<lparr>cachedRemoteDirectories = Some {}, connection = conn, hasCancelled = False\<rparr>"

definition createContext ::
  "(string option \<Rightarrow> string) \<Rightarrow> connect_env \<Rightarrow> DeployTargetFTP \<Rightarrow> event list \<times> FTPContext promise" where
  "createContext normalizeString env t =
     (let selector = normalizeString (engine t) in
      case select_client selector of
        Some client \<Rightarrow>
          (case client_connect env t client of
             (client', Resolved connected) \<Rightarrow> ([Connect (kind client)], Resolved (new_context (Some client')))
           | (client', Rejected (Some e)) \<Rightarrow> ([Connect (kind client)], Rejected (Some e))
           | (client', Rejected None) \<Rightarrow> ([Connect (kind client)], Resolved (new_context None))
           | (client', Pending) \<Rightarrow> ([Connect (kind client)], Pending))
      | None \<Rightarrow> ([], Rejected (Some (Error (''Unknown engine: '' @ [CHR 0x27] @ selector @ [CHR 0x27])))))"

text \<open>\<open>wrapper.destroy\<close>: the cache property is deleted, then the engine is closed and the
  promise follows the one of \<open>end\<close>.\<close>

definition destroy :: "js_error option \<Rightarrow> FTPContext \<Rightarrow> FTPContext \<times> event list \<times> client promise" where
  "destroy throws ctx =
     (let ctx1 = ctx\<lparr>cachedRemoteDirectories := None\<rparr> in
      case connection ctx1 of
        None \<Rightarrow> (ctx1, [DeleteCache], Rejected (Some TypeError))
      | Some conn \<Rightarrow>
          (case client_end throws conn of
             (conn', Resolved closed) \<Rightarrow> (ctx1\<lparr>connection := Some conn'\<rparr>, [DeleteCache, End], Resolved conn')
           | (conn', Rejected e) \<Rightarrow> (ctx1\<lparr>connection := Some conn'\<rparr>, [DeleteCache, End], Rejected e)
           | (conn', Pending) \<Rightarrow> (ctx1\<lparr>connection := Some conn'\<rparr>, [DeleteCache, End], Pending)))"

section \<open>Observations on traces\<close>

fun is_completion :: "event \<Rightarrow> bool" where
  "is_completion (Completed out) = True"
| "is_completion e = False"

fun is_hook :: "event \<Rightarrow> bool" where
  "is_hook (BeforeDeploy f d) = True"
| "is_hook e = False"

fun is_network_call :: "event \<Rightarrow> bool" where
  "is_network_call (Cwd d) = True"
| "is_network_call (Mkdir d) = True"
| "is_network_call (Put p b) = True"
| "is_network_call (Get p) = True"
| "is_network_call (Connect k) = True"
| "is_network_call End = True"
| "is_network_call e = False"

fun is_cwd :: "event \<Rightarrow> bool" where
  "is_cwd (Cwd d) = True"
| "is_cwd e = False"

fun is_mkdir :: "event \<Rightarrow> bool" where
  "is_mkdir (Mkdir d) = True"
| "is_mkdir e = False"

text \<open>The directory calls that follow the first call of the pre-transfer hook.\<close>

fun directory_calls_after_hook :: "event list \<Rightarrow> event list" where
  "directory_calls_after_hook [] = []"
| "directory_calls_after_hook (e # es) =
     (if is_hook e then filter (\<lambda>e'. is_cwd e' \<or> is_mkdir e') es
      else directory_calls_after_hook es)"

text \<open>Every engine call the environment holds ready for a file settles.\<close>

definition engine_calls_settle :: "file_env \<Rightarrow> bool" where
  "engine_calls_settle env \<longleftrightarrow>
     cwd_result env \<noteq> Pending \<and> mkdir_result env \<noteq> Pending
     \<and> put_result env \<noteq> Pending \<and> get_result env \<noteq> Pending"

text \<open>A lookup that finds the directory: the first file with this parent has been through
  \<open>uploadFile(true)\<close>, or the name is one every object answers to.\<close>

definition is_cached :: "FTPContext \<Rightarrow> string \<Rightarrow> bool" where
  "is_cached ctx d \<longleftrightarrow> cache_entry_missing (cachedRemoteDirectories ctx) d = Inr False"

section \<open>The scenario of the specification\<close>

text \<open>
  Base directory \<open>/proj\<close>, remote base \<open>/web\<close>, the files \<open>/proj/a.txt\<close> and
  \<open>/proj/sub/b.txt\<close>. The collaborators are given for a POSIX host and for paths in normal
  form, where \<open>path.join\<close> puts one separator between its arguments and \<open>path.dirname\<close> cuts
  at the last separator.
\<close>

definition scenario_target :: DeployTargetFTP where
  "scenario_target =
     \<lparr>dir = Some ''/web'', host = Some ''ftp.example.com'', port = None,
      rejectUnauthorized = None, user = None, password = None, secure = None,
      connTimeout = None, pasvTimeout = None, keepalive = None, engine = None\<rparr>"

definition relative_to_base :: "string \<Rightarrow> DeployTargetFTP \<Rightarrow> string option \<Rightarrow> string option" where
  "relative_to_base f t base =
     (case base of
        None \<Rightarrow> None
      | Some b \<Rightarrow>
          if take (Suc (length b)) f = b @ ''/'' then Some (drop (Suc (length b)) f) else None)"

definition dirname_at_last_slash :: "string \<Rightarrow> string" where
  "dirname_at_last_slash p =
     (let upto = rev (dropWhile (\<lambda>c. c \<noteq> CHR ''/'') (rev p)) in
      if upto = [] then ''.'' else if butlast upto = [] then ''/'' else butlast upto)"

definition posix :: externals where
  "posix =
     \<lparr>toRelativeTargetPath = relative_to_base,
      path_sep = CHR ''/'',
      path_join = (\<lambda>a b. a @ ''/'' @ b),
      path_dirname = dirname_at_last_slash\<rparr>"

definition both_hooks :: DeployFileOptions where
  "both_hooks = \<lparr>onCompleted = True, onBeforeDeploy = True, baseDirectory = Some ''/proj''\<rparr>"

text \<open>Every step settles well and nobody cancels; the local file holds three bytes.\<close>

definition calm :: file_env where
  "calm =
     \<lparr>cwd_result = Resolved ''/web'', cancel_in_cwd = False,
      mkdir_result = Resolved ''/web'', cancel_in_mkdir = False,
      read_result = Inr [1, 2, 3], cancel_in_read = False,
      put_result = Resolved [1, 2, 3], cancel_in_put = False,
      get_result = Resolved [1, 2, 3], cancel_in_get = False,
      end_throws = None\<rparr>"

definition calm_get :: get_env where
  "calm_get =
     \<lparr>get_fault = None, chunk_size = 1, close_hadErr = False,
      tmp_name = Some ''/tmp/tmp-1'', write_throws = None, read_fault = None,
      staged_at_end = None\<rparr>"

definition connected :: "engine_kind \<Rightarrow> client" where
  "connected k = \<lparr>kind = k, own_connection = Some \<lparr>established = True\<rparr>\<rparr>"

definition fresh_session :: FTPContext where
  "fresh_session = new_context (Some (connected FtpClient))"

text \<open>A server that has the directory \<open>/web\<close> and nothing else.\<close>

definition web_remote :: remote where
  "web_remote = \<lparr>files = Map.empty, dirs = {[''web'']}\<rparr>"

text \<open>\<open>normalizeString\<close> on selectors that are in normal form already: a missing value
  becomes the empty string, and lower-casing and trimming change nothing.\<close>

definition normalizeString_plain :: "string option \<Rightarrow> string" where
  "normalizeString_plain v = (case v of None \<Rightarrow> [] | Some s \<Rightarrow> s)"

section \<open>Properties\<close>

lemma concat_slices: "concat (slices n xs) = xs"
proof (induction n xs rule: slices.induct)
  case (1 n)
  show ?case by simp
next
  case (2 n x xs)
  then show ?case by simp
qed

lemma foldl_append_concat: "foldl (\<lambda>acc chunk. acc @ chunk) acc chunks = acc @ concat chunks"
  by (induction chunks arbitrary: acc) simp_all

subsection \<open>Engines\<close>

text \<open>
  What holds of the round trip, for both classes: on a connected instance and without a
  fault of the library, \<open>put\<close> stores the bytes under the path and resolves with them (a
  missing buffer counts as the empty one), and a following \<open>get\<close> that is not disturbed,
  which includes that the staging file is complete when it is read, resolves with the same
  bytes, for every chunking of the data channel.
\<close>

lemma put_then_undisturbed_get:
  assumes conn: "own_connection c = Some conn" and env: "get_undisturbed env"
  shows "client_put None c path data r
           = (r\<lparr>files := (files r)(path \<mapsto> (case data of None \<Rightarrow> [] | Some b \<Rightarrow> b))\<rparr>,
              Resolved (case data of None \<Rightarrow> [] | Some b \<Rightarrow> b))
         \<and> snd (client_get env c path
                  (r\<lparr>files := (files r)(path \<mapsto> (case data of None \<Rightarrow> [] | Some b \<Rightarrow> b))\<rparr>) fs)
             = Resolved (case data of None \<Rightarrow> [] | Some b \<Rightarrow> b)"
proof -
  let ?sent = "case data of None \<Rightarrow> [] | Some b \<Rightarrow> b"
  have put: "client_put None c path data r
           = (r\<lparr>files := (files r)(path \<mapsto> ?sent)\<rparr>, Resolved ?sent)"
    using conn
    by (cases "kind c")
       (simp_all add: client_put_def FtpClient_put_def JsFTPClient_put_def lib_put_def Let_def
          createSimplePromiseCompletedAction_def)
  from env obtain tmpFile where e: "get_fault env = None" "\<not> close_hadErr env"
      "tmp_name env = Some tmpFile" "write_throws env = None" "read_fault env = None"
      "staged_at_end env = None"
    by (auto simp: get_undisturbed_def)
  have "snd (client_get env c path (r\<lparr>files := (files r)(path \<mapsto> ?sent)\<rparr>) fs) = Resolved ?sent"
    using conn e
    by (cases "kind c")
       (simp_all add: client_get_def FtpClient_get_def JsFTPClient_get_def lib_get_def Let_def
          pipe_to_file_def deleteTempFile_def createSimplePromiseCompletedAction_def
          foldl_append_concat concat_slices)
  with put show ?thesis by simp
qed

text \<open>
  C1. The round trip is claimed for both engine variants and every buffer. \<open>FtpClient.get\<close>
  reads its staging file when the source stream emits \<open>'end'\<close>, without waiting for the write
  stream. After \<open>put\<close> of the three bytes \<open>1, 2, 3\<close> under \<open>/web/a.txt\<close> has resolved, a \<open>get\<close>
  of that path during which no error occurs, but in which the write stream has not yet
  written when the file is read, resolves with the empty buffer. \<open>JsFTPClient\<close>, which
  collects the chunks in memory, returns the three bytes on the same input.
\<close>

theorem staging_file_read_before_written:
  "client_put None (connected FtpClient) ''/web/a.txt'' (Some [1, 2, 3]) web_remote
     = (web_remote\<lparr>files := [''/web/a.txt'' \<mapsto> [1, 2, 3]]\<rparr>, Resolved [1, 2, 3])
   \<and> client_get (calm_get\<lparr>staged_at_end := Some 0\<rparr>) (connected FtpClient) ''/web/a.txt''
        (web_remote\<lparr>files := [''/web/a.txt'' \<mapsto> [1, 2, 3]]\<rparr>) Map.empty
     = (Map.empty, Resolved [])
   \<and> client_put None (connected JsFTPClient) ''/web/a.txt'' (Some [1, 2, 3]) web_remote
     = (web_remote\<lparr>files := [''/web/a.txt'' \<mapsto> [1, 2, 3]]\<rparr>, Resolved [1, 2, 3])
   \<and> client_get (calm_get\<lparr>staged_at_end := Some 0\<rparr>) (connected JsFTPClient) ''/web/a.txt''
        (web_remote\<lparr>files := [''/web/a.txt'' \<mapsto> [1, 2, 3]]\<rparr>) Map.empty
     = (Map.empty, Resolved [1, 2, 3])"
  by (simp add: client_put_def FtpClient_put_def JsFTPClient_put_def client_get_def
        FtpClient_get_def JsFTPClient_get_def connected_def lib_put_def lib_get_def
        web_remote_def calm_get_def pipe_to_file_def deleteTempFile_def
        createSimplePromiseCompletedAction_def Let_def)

text \<open>
  C2. \<open>mkdir(dir)\<close> is claimed to create the directory with all its missing ancestors in both
  variants. On a server that has \<open>/web\<close> only, \<open>JsFTPClient.mkdir\<close> of \<open>/web/a/b\<close> sends one
  \<open>MKD\<close>, which the server refuses for want of \<open>/web/a\<close>: the promise is rejected and nothing
  is created. \<open>FtpClient.mkdir\<close>, which passes \<open>true\<close> for the library's recursive mode,
  creates \<open>/web/a\<close> and \<open>/web/a/b\<close> and resolves with the path.
\<close>

theorem JsFTPClient_mkdir_single_level:
  "JsFTPClient_mkdir None (connected JsFTPClient) ''/web/a/b'' web_remote
     = (web_remote, Rejected (Some (Error ''550 no such directory'')))
   \<and> FtpClient_mkdir None (connected FtpClient) ''/web/a/b'' web_remote
     = (web_remote\<lparr>dirs := {[''web''], [''web'', ''a''], [''web'', ''a'', ''b'']}\<rparr>,
        Resolved ''/web/a/b'')"
  by (auto simp: JsFTPClient_mkdir_def FtpClient_mkdir_def connected_def web_remote_def
        lib_jsftp_raw_mkd_def lib_ftp_mkdir_def server_mkd_def split_path_def Let_def
        createSimplePromiseCompletedAction_def)

text \<open>
  C3. \<open>connect\<close> is claimed to reject when the network or the login fails, never to resolve
  \<open>true\<close> without an established connection, and to be a no-op resolving \<open>false\<close> on a
  connected instance. With a host that refuses the connection, \<open>JsFTPClient.connect\<close> resolves
  \<open>true\<close> and keeps a handle whose connection is not established, where \<open>FtpClient.connect\<close>
  rejects with the error. Called on a connected instance, either variant resolves \<open>false\<close>
  and leaves the instance without its connection.
\<close>

theorem connect_resolves_unconnected:
  "JsFTPClient_connect (ErrorEvent (Some (Error ''connect ECONNREFUSED''))) scenario_target
       \<lparr>kind = JsFTPClient, own_connection = None\<rparr>
     = (\<lparr>kind = JsFTPClient, own_connection = Some \<lparr>established = False\<rparr>\<rparr>, Resolved True)
   \<and> FtpClient_connect (ErrorEvent (Some (Error ''connect ECONNREFUSED''))) scenario_target
       \<lparr>kind = FtpClient, own_connection = None\<rparr>
     = (\<lparr>kind = FtpClient, own_connection = None\<rparr>, Rejected (Some (Error ''connect ECONNREFUSED'')))
   \<and> FtpClient_connect Ready scenario_target (connected FtpClient)
     = (\<lparr>kind = FtpClient, own_connection = None\<rparr>, Resolved False)
   \<and> JsFTPClient_connect Ready scenario_target (connected JsFTPClient)
     = (\<lparr>kind = JsFTPClient, own_connection = None\<rparr>, Resolved False)"
  by (simp add: JsFTPClient_connect_def FtpClient_connect_def connected_def)

subsection \<open>Lifecycle\<close>

text \<open>
  C8, as amended. A target whose normalised engine selector is none of the empty string,
  \<open>ftp\<close> and \<open>jsftp\<close> makes \<open>createContext\<close> reject with the error that names the selector,
  and \<open>connect\<close> is not called.
\<close>

theorem unknown_engine_rejected:
  assumes "normalizeString (engine t) \<notin> {[], ''ftp'', ''jsftp''}"
  shows "createContext normalizeString env t
           = ([], Rejected (Some (Error (''Unknown engine: '' @ [CHR 0x27]
                                          @ normalizeString (engine t) @ [CHR 0x27]))))"
  using assms by (simp add: createContext_def select_client_def Let_def)

theorem unknown_engine_rejected_witness:
  "normalizeString_plain (engine (scenario_target\<lparr>engine := Some ''sftp''\<rparr>)) \<notin> {[], ''ftp'', ''jsftp''}
   \<and> createContext normalizeString_plain Ready (scenario_target\<lparr>engine := Some ''sftp''\<rparr>)
       = ([], Rejected (Some (Error (''Unknown engine: '' @ [CHR 0x27] @ ''sftp'' @ [CHR 0x27]))))"
  using unknown_engine_rejected [of normalizeString_plain "scenario_target\<lparr>engine := Some ''sftp''\<rparr>" Ready]
  by (simp add: normalizeString_plain_def scenario_target_def)

text \<open>
  C8 as stated counts the empty selector among the fatal ones. The target of the scenario
  names no engine, its selector normalises to the empty string, and \<open>createContext\<close>
  connects an \<open>FtpClient\<close> and resolves with a fresh session.
\<close>

theorem empty_engine_selects_FtpClient:
  "normalizeString_plain (engine scenario_target) = []
   \<and> createContext normalizeString_plain Ready scenario_target
       = ([Connect FtpClient], Resolved (new_context (Some (connected FtpClient))))"
  by (simp add: createContext_def select_client_def normalizeString_plain_def scenario_target_def
        client_connect_def FtpClient_connect_def connected_def Let_def)

text \<open>
  C10. \<open>destroy\<close> deletes the directory cache before it calls \<open>end\<close> on the engine: whatever
  \<open>end\<close> does, the session is left without its cache and the deletion is the first step; and
  when \<open>end\<close> rejects, \<open>destroy\<close> rejects with the same error, the cache being gone all the
  same.
\<close>

theorem destroy_deletes_cache_first:
  "cachedRemoteDirectories (fst (destroy throws ctx)) = None
   \<and> hd (fst (snd (destroy throws ctx))) = DeleteCache
   \<and> (connection ctx = Some conn \<and> client_end throws conn = (conn', Rejected e)
        \<longrightarrow> destroy throws ctx
              = (ctx\<lparr>cachedRemoteDirectories := None, connection := Some conn'\<rparr>,
                 [DeleteCache, End], Rejected e))"
  by (auto simp: destroy_def Let_def split: option.splits prod.splits promise.splits)

theorem destroy_deletes_cache_first_witness:
  "connection fresh_session = Some (connected FtpClient)
   \<and> client_end (Some (Error ''socket hang up'')) (connected FtpClient)
       = (connected FtpClient, Rejected (Some (Error ''socket hang up'')))
   \<and> destroy (Some (Error ''socket hang up'')) fresh_session
       = (fresh_session\<lparr>cachedRemoteDirectories := None, connection := Some (connected FtpClient)\<rparr>,
          [DeleteCache, End], Rejected (Some (Error ''socket hang up'')))"
proof -
  have a: "connection fresh_session = Some (connected FtpClient)"
    by (simp add: fresh_session_def new_context_def)
  have b: "client_end (Some (Error ''socket hang up'')) (connected FtpClient)
       = (connected FtpClient, Rejected (Some (Error ''socket hang up'')))"
    by (simp add: client_end_def FtpClient_end_def connected_def)
  from destroy_deletes_cache_first [of "Some (Error ''socket hang up'')" fresh_session
        "connected FtpClient" "connected FtpClient" "Some (Error ''socket hang up'')"] a b
  show ?thesis by simp
qed

subsection \<open>Upload and download\<close>

text \<open>The cancellation hook touches the flag and the engine, never the cache.\<close>

lemma pending_cache: "cachedRemoteDirectories (pending c th ctx) = cachedRemoteDirectories ctx"
  by (simp add: pending_def onCancelling_def)

lemma pending_cancelled: "hasCancelled (pending c th ctx) = (c \<or> hasCancelled ctx)"
  by (simp add: pending_def onCancelling_def)

text \<open>What \<open>uploadFile\<close> does to the outside: one completion, at the end, and no
  directory call.\<close>

lemma uploadFile_completions:
  assumes "onCompleted opts" and "put_result env \<noteq> Pending"
  shows "length (filter is_completion (snd (uploadFile opts env f t tf td init ctx))) = 1"
  using assms
  by (simp add: uploadFile_def Let_def completed_def split: sum.splits promise.splits)

lemma uploadFile_last:
  assumes "onCompleted opts" and "put_result env \<noteq> Pending"
  shows "is_completion (last (snd (uploadFile opts env f t tf td init ctx)))"
  using assms
  by (simp add: uploadFile_def Let_def completed_def split: sum.splits promise.splits)

lemma uploadFile_at_most_one_completion:
  "length (filter is_completion (snd (uploadFile opts env f t tf td init ctx))) \<le> 1"
  by (simp add: uploadFile_def Let_def completed_def split: sum.splits promise.splits)

lemma uploadFile_no_directory_calls:
  "filter is_cwd (snd (uploadFile opts env f t tf td init ctx)) = []
   \<and> filter is_mkdir (snd (uploadFile opts env f t tf td init ctx)) = []
   \<and> filter is_hook (snd (uploadFile opts env f t tf td init ctx)) = []"
  by (simp add: uploadFile_def Let_def completed_def split: sum.splits promise.splits)

lemma uploadFile_cache:
  "cachedRemoteDirectories (fst (uploadFile opts env f t tf td init ctx)) =
     (if init \<and> \<not> hasCancelled ctx then map_option (insert td) (cachedRemoteDirectories ctx)
      else cachedRemoteDirectories ctx)"
  by (simp add: uploadFile_def Let_def pending_cache split: sum.splits promise.splits)


lemma is_cached_pending: "is_cached (pending c th ctx) d = is_cached ctx d"
  by (simp add: is_cached_def pending_cache)

lemma uploadFile_keeps_cached:
  "is_cached ctx d \<Longrightarrow> is_cached (fst (uploadFile opts env f t tf td init ctx)) d"
  by (auto simp: is_cached_def uploadFile_cache cache_entry_missing_def split: option.splits)

lemma uploadFile_reads:
  "ReadFile f' \<in> set (snd (uploadFile opts env f t tf td init ctx)) \<Longrightarrow> \<not> hasCancelled ctx"
  by (auto simp: uploadFile_def completed_def split: if_splits)

lemma uploadFile_caches:
  assumes "ReadFile f' \<in> set (snd (uploadFile opts env f t tf td True ctx))"
      and "cachedRemoteDirectories ctx \<noteq> None"
  shows "is_cached (fst (uploadFile opts env f t tf td True ctx)) td"
proof -
  from assms(1) have "\<not> hasCancelled ctx" by (rule uploadFile_reads)
  with assms(2) show ?thesis
    by (auto simp: is_cached_def uploadFile_cache cache_entry_missing_def)
qed

text \<open>The same for a whole call of \<open>deployFileWithContext\<close> and of
  \<open>downloadFileWithContext\<close>.\<close>

lemma deploy_completions:
  assumes "onCompleted opts" and "cachedRemoteDirectories ctx \<noteq> None"
      and "engine_calls_settle env"
  shows "length (filter is_completion (snd (deployFileWithContext x opts env ctx f t))) = 1"
proof -
  from assms(3) have p: "put_result env \<noteq> Pending" by (simp add: engine_calls_settle_def)
  have u: "\<And>tf td init c. length (filter is_completion (snd (uploadFile opts env f t tf td init c))) = 1"
    using assms(1) p by (rule uploadFile_completions)
  show ?thesis
    using assms u
    by (auto simp: deployFileWithContext_def Let_def completed_def cache_entry_missing_def
          engine_calls_settle_def case_prod_beta
          split: option.splits sum.splits bool.splits promise.splits)
qed

lemma deploy_last:
  assumes "onCompleted opts" and "cachedRemoteDirectories ctx \<noteq> None"
      and "engine_calls_settle env"
  shows "is_completion (last (snd (deployFileWithContext x opts env ctx f t)))"
proof -
  from assms(3) have p: "put_result env \<noteq> Pending" by (simp add: engine_calls_settle_def)
  have u: "\<And>tf td init c. is_completion (last (snd (uploadFile opts env f t tf td init c)))"
    using assms(1) p by (rule uploadFile_last)
  have v: "\<And>tf td init c. snd (uploadFile opts env f t tf td init c) \<noteq> []"
  proof -
    fix tf td init c
    have "length (filter is_completion (snd (uploadFile opts env f t tf td init c))) = 1"
      using assms(1) p by (rule uploadFile_completions)
    then show "snd (uploadFile opts env f t tf td init c) \<noteq> []" by auto
  qed
  show ?thesis
    using assms u v
    by (auto simp: deployFileWithContext_def Let_def completed_def cache_entry_missing_def
          engine_calls_settle_def case_prod_beta
          split: option.splits sum.splits bool.splits promise.splits)
qed

lemma deploy_at_most_one_completion:
  "length (filter is_completion (snd (deployFileWithContext x opts env ctx f t))) \<le> 1"
proof -
  have u: "\<And>tf td init c. length (filter is_completion (snd (uploadFile opts env f t tf td init c))) \<le> 1"
    by (rule uploadFile_at_most_one_completion)
  show ?thesis
    using u
    by (auto simp: deployFileWithContext_def Let_def completed_def case_prod_beta
          split: option.splits sum.splits bool.splits promise.splits)
qed

lemma download_completions:
  assumes "onCompleted opts" and "get_result env \<noteq> Pending"
  shows "length (filter is_completion (fst (snd (downloadFileWithContext x opts env ctx f t)))) = 1
         \<and> is_completion (last (fst (snd (downloadFileWithContext x opts env ctx f t))))"
  using assms
  by (auto simp: downloadFileWithContext_def download_completed_def Let_def completed_def
        split: option.splits promise.splits)

lemma download_at_most_one_completion:
  "length (filter is_completion (fst (snd (downloadFileWithContext x opts env ctx f t)))) \<le> 1"
  by (auto simp: downloadFileWithContext_def download_completed_def Let_def completed_def
        split: option.splits promise.splits)

text \<open>
  With a completion hook supplied, every engine call settling and the cache of the session
  in place, each orchestrator calls the hook exactly once, as its last action, whichever
  branch ends the flow; and never more than once in any case. (Hooks are taken to return
  normally.)
\<close>

lemma completion_when_calls_settle:
  assumes "onCompleted opts" and "cachedRemoteDirectories ctx \<noteq> None"
      and "engine_calls_settle env" and "engine_calls_settle env'"
  shows "length (filter is_completion (snd (deployFileWithContext x opts env ctx f t))) = 1
         \<and> is_completion (last (snd (deployFileWithContext x opts env ctx f t)))
         \<and> length (filter is_completion (fst (snd (downloadFileWithContext x opts env' ctx' f t)))) = 1
         \<and> is_completion (last (fst (snd (downloadFileWithContext x opts env' ctx' f t))))"
proof -
  from assms(4) have g: "get_result env' \<noteq> Pending" by (simp add: engine_calls_settle_def)
  from deploy_completions [OF assms(1-3)] deploy_last [OF assms(1-3)]
    download_completions [OF assms(1) g]
  show ?thesis by blast
qed

lemma completed_flag:
  "Completed out \<in> set (completed opts c f t err) \<Longrightarrow> canceled out = hasCancelled c"
  by (auto simp: completed_def split: if_splits)

lemma uploadFile_flag_at_completion:
  "Completed out \<in> set (snd (uploadFile opts env f t tf td init ctx))
   \<Longrightarrow> canceled out = hasCancelled (fst (uploadFile opts env f t tf td init ctx))"
  by (auto simp: uploadFile_def Let_def dest: completed_flag
        split: sum.splits promise.splits if_splits)

lemma deploy_flag_at_completion:
  "Completed out \<in> set (snd (deployFileWithContext x opts env ctx f t))
   \<Longrightarrow> canceled out = hasCancelled (fst (deployFileWithContext x opts env ctx f t))"
proof -
  assume a: "Completed out \<in> set (snd (deployFileWithContext x opts env ctx f t))"
  have u: "\<And>tf td init c. Completed out \<in> set (snd (uploadFile opts env f t tf td init c))
             \<Longrightarrow> canceled out = hasCancelled (fst (uploadFile opts env f t tf td init c))"
    by (rule uploadFile_flag_at_completion)
  have c: "\<And>c err. Completed out \<in> set (completed opts c f t err) \<Longrightarrow> canceled out = hasCancelled c"
    by (rule completed_flag)
  show ?thesis
    using a u c
    by (auto simp: deployFileWithContext_def Let_def case_prod_beta
          split: option.splits sum.splits bool.splits promise.splits if_splits)
qed

lemma download_flag_at_completion:
  "Completed out \<in> set (fst (snd (downloadFileWithContext x opts env ctx f t)))
   \<Longrightarrow> canceled out = hasCancelled (fst (downloadFileWithContext x opts env ctx f t))"
  by (auto simp: downloadFileWithContext_def download_completed_def Let_def completed_def
        split: option.splits promise.splits if_splits)

lemma upload_cancelled_in_put:
  assumes "onCompleted opts" "Put p b \<in> set (snd (deployFileWithContext x opts env ctx f t))"
      "cancel_in_put env" "put_result env = Resolved echoed"
  shows "last (snd (deployFileWithContext x opts env ctx f t))
         = Completed \<lparr>canceled = True, error = None, file_path = f, target = t\<rparr>"
  using assms
  by (auto simp: deployFileWithContext_def uploadFile_def Let_def completed_def case_prod_beta
        pending_cancelled split: option.splits sum.splits bool.splits promise.splits if_splits)

lemma download_cancelled_in_get:
  assumes "onCompleted opts" "Get p \<in> set (fst (snd (downloadFileWithContext x opts env ctx f t)))"
      "cancel_in_get env" "get_result env = Resolved data"
  shows "last (fst (snd (downloadFileWithContext x opts env ctx f t)))
         = Completed \<lparr>canceled = True, error = None, file_path = f, target = t\<rparr>"
  using assms
  by (auto simp: downloadFileWithContext_def download_completed_def Let_def completed_def
        pending_cancelled split: option.splits promise.splits if_splits)

lemma deploy_keeps_cached:
  "is_cached ctx d \<Longrightarrow> is_cached (fst (deployFileWithContext x opts env ctx f t)) d"
proof -
  assume c: "is_cached ctx d"
  have u: "\<And>tf td init c'. is_cached c' d \<Longrightarrow> is_cached (fst (uploadFile opts env f t tf td init c')) d"
    by (rule uploadFile_keeps_cached)
  show ?thesis
    using c u
    by (auto simp: deployFileWithContext_def Let_def case_prod_beta is_cached_pending
          split: option.splits sum.splits bool.splits promise.splits)
qed

lemma deploy_directory_calls:
  assumes "e \<in> set (snd (deployFileWithContext x opts env ctx f t))" and "is_cwd e \<or> is_mkdir e"
  shows "\<not> hasCancelled ctx
         \<and> (\<exists>rel. toRelativeTargetPath x f t (baseDirectory opts) = Some rel
           \<and> (let td = toFTPPath x (path_dirname x (toFTPPath x (path_join x (getDirFromTarget t) rel)))
              in (e = Cwd td \<or> e = Mkdir td) \<and> \<not> is_cached ctx td))"
proof -
  have u: "\<And>tf td init c. e \<notin> set (snd (uploadFile opts env f t tf td init c))"
    using uploadFile_no_directory_calls assms(2)
    by (metis filter_empty_conv)
  have c: "\<And>c err. e \<notin> set (completed opts c f t err)"
    using assms(2) by (auto simp: completed_def)
  show ?thesis
    using assms u c
    by (auto simp: deployFileWithContext_def Let_def case_prod_beta is_cached_def
          split: option.splits sum.splits bool.splits promise.splits if_splits)
qed

lemma deploy_directory_call_counts:
  "length (filter is_cwd (snd (deployFileWithContext x opts env ctx f t))) \<le> 1
   \<and> length (filter is_mkdir (snd (deployFileWithContext x opts env ctx f t))) \<le> 1"
proof -
  have u: "\<And>tf td init c. filter is_cwd (snd (uploadFile opts env f t tf td init c)) = []
              \<and> filter is_mkdir (snd (uploadFile opts env f t tf td init c)) = []"
    using uploadFile_no_directory_calls by blast
  show ?thesis
    using u
    by (auto simp: deployFileWithContext_def Let_def case_prod_beta completed_def
          split: option.splits sum.splits bool.splits promise.splits)
qed

lemma deploy_caches:
  assumes rd: "ReadFile f' \<in> set (snd (deployFileWithContext x opts env ctx f t))"
  shows "\<exists>rel. toRelativeTargetPath x f t (baseDirectory opts) = Some rel
           \<and> is_cached (fst (deployFileWithContext x opts env ctx f t))
                (toFTPPath x (path_dirname x (toFTPPath x (path_join x (getDirFromTarget t) rel))))"
proof -
  have c: "\<And>c err. ReadFile f' \<notin> set (completed opts c f t err)"
    by (auto simp: completed_def)
  from rd c have nc: "\<not> hasCancelled ctx"
    by (auto simp: deployFileWithContext_def)
  from rd c nc obtain rel where rel: "toRelativeTargetPath x f t (baseDirectory opts) = Some rel"
    by (cases "toRelativeTargetPath x f t (baseDirectory opts)") (auto simp: deployFileWithContext_def)
  let ?tf = "toFTPPath x (path_join x (getDirFromTarget t) rel)"
  let ?td = "toFTPPath x (path_dirname x ?tf)"
  have "is_cached (fst (deployFileWithContext x opts env ctx f t)) ?td"
  proof (cases "cache_entry_missing (cachedRemoteDirectories ctx) ?td")
    case (Inl e)
    with rd nc rel show ?thesis
      by (auto simp: deployFileWithContext_def Let_def)
  next
    case (Inr missing)
    show ?thesis
    proof (cases missing)
      case False
      with Inr have "is_cached ctx ?td" by (simp add: is_cached_def)
      then have "is_cached (fst (uploadFile opts env f t ?tf ?td False ctx)) ?td"
        by (rule uploadFile_keeps_cached)
      with Inr False nc rel show ?thesis
        by (simp add: deployFileWithContext_def Let_def case_prod_beta)
    next
      case True
      with Inr have some: "\<And>a b. cachedRemoteDirectories (pending a b ctx) \<noteq> None"
          "\<And>a b a' b'. cachedRemoteDirectories (pending a' b' (pending a b ctx)) \<noteq> None"
        by (auto simp: cache_entry_missing_def pending_cache split: option.splits)
      have u: "\<And>c. ReadFile f' \<in> set (snd (uploadFile opts env f t ?tf ?td True c))
              \<Longrightarrow> cachedRemoteDirectories c \<noteq> None
              \<Longrightarrow> is_cached (fst (uploadFile opts env f t ?tf ?td True c)) ?td"
        by (rule uploadFile_caches)
      from rd Inr True nc rel c some u show ?thesis
        by (auto simp: deployFileWithContext_def Let_def case_prod_beta
              split: promise.splits if_splits)
    qed
  qed
  with rel show ?thesis by blast
qed

lemma uploadFile_without_read:
  "ReadFile f \<notin> set (snd (uploadFile opts env f t tf td init ctx))
   \<Longrightarrow> fst (uploadFile opts env f t tf td init ctx) = ctx"
  by (auto simp: uploadFile_def Let_def split: sum.splits promise.splits if_splits)

lemma deploy_without_read:
  assumes "ReadFile f \<notin> set (snd (deployFileWithContext x opts env ctx f t))"
  shows "cachedRemoteDirectories (fst (deployFileWithContext x opts env ctx f t))
           = cachedRemoteDirectories ctx"
proof -
  have u: "\<And>tf td init c. ReadFile f \<notin> set (snd (uploadFile opts env f t tf td init c))
              \<Longrightarrow> cachedRemoteDirectories (fst (uploadFile opts env f t tf td init c))
                  = cachedRemoteDirectories c"
    by (simp add: uploadFile_without_read)
  show ?thesis
    using assms u
    by (auto simp: deployFileWithContext_def Let_def case_prod_beta pending_cache
          split: option.splits sum.splits bool.splits promise.splits if_splits)
qed

lemma deploy_uncached_checks:
  assumes nc: "\<not> hasCancelled ctx"
      and rel: "toRelativeTargetPath x f t (baseDirectory opts) = Some rel"
      and cache: "cachedRemoteDirectories ctx \<noteq> None"
      and miss: "\<not> is_cached ctx (toFTPPath x (path_dirname x
                    (toFTPPath x (path_join x (getDirFromTarget t) rel))))"
  shows "filter is_cwd (snd (deployFileWithContext x opts env ctx f t))
           = [Cwd (toFTPPath x (path_dirname x (toFTPPath x (path_join x (getDirFromTarget t) rel))))]
         \<and> filter is_mkdir (snd (deployFileWithContext x opts env ctx f t))
           = (case cwd_result env of
                Rejected (Some err) \<Rightarrow>
                  if cancel_in_cwd env then []
                  else [Mkdir (toFTPPath x (path_dirname x
                                 (toFTPPath x (path_join x (getDirFromTarget t) rel))))]
              | _ \<Rightarrow> [])"
proof -
  let ?td = "toFTPPath x (path_dirname x (toFTPPath x (path_join x (getDirFromTarget t) rel)))"
  from cache miss have m: "cache_entry_missing (cachedRemoteDirectories ctx) ?td = Inr True"
    by (auto simp: is_cached_def cache_entry_missing_def)
  have u: "\<And>tf td init c. filter is_cwd (snd (uploadFile opts env f t tf td init c)) = []
              \<and> filter is_mkdir (snd (uploadFile opts env f t tf td init c)) = []"
    using uploadFile_no_directory_calls by blast
  have c: "\<And>c err. filter is_cwd (completed opts c f t err) = []
              \<and> filter is_mkdir (completed opts c f t err) = []"
    by (simp add: completed_def)
  show ?thesis
    using nc rel m u c
    by (auto simp: deployFileWithContext_def Let_def case_prod_beta pending_cancelled
          split: option.splits promise.splits)
qed

lemma deployFiles_cached:
  "is_cached ctx d \<Longrightarrow> Cwd d \<notin> set (snd (deployFiles x opts t fs ctx))
     \<and> Mkdir d \<notin> set (snd (deployFiles x opts t fs ctx))"
proof (induction fs arbitrary: ctx)
  case Nil
  show ?case by simp
next
  case (Cons fe fs)
  obtain f env where fe: "fe = (f, env)" by (cases fe)
  let ?r = "deployFileWithContext x opts env ctx f t"
  have here: "Cwd d \<notin> set (snd ?r) \<and> Mkdir d \<notin> set (snd ?r)"
  proof (rule ccontr)
    assume "\<not> ?thesis"
    then obtain e where e: "e \<in> set (snd ?r)" "e = Cwd d \<or> e = Mkdir d" by blast
    then have "is_cwd e \<or> is_mkdir e" by auto
    from deploy_directory_calls [OF e(1) this] e(2) Cons.prems
    show False by (auto simp: Let_def)
  qed
  have "is_cached (fst ?r) d" using Cons.prems by (rule deploy_keeps_cached)
  from Cons.IH [OF this] here fe show ?case
    by (simp add: case_prod_beta)
qed

text \<open>The runs of the scenario, evaluated.\<close>

lemmas scenario_defs =
  deployFileWithContext_def uploadFile_def completed_def downloadFileWithContext_def
  download_completed_def posix_def relative_to_base_def both_hooks_def fresh_session_def
  new_context_def calm_def toFTPPath_def getDirFromTarget_def scenario_target_def
  dirname_at_last_slash_def cache_entry_missing_def Object_prototype_keys_def pending_def
  onCancelling_def client_end_def FtpClient_end_def connected_def is_cached_def Let_def

lemma scenario_first_file:
  "deployFileWithContext posix both_hooks calm fresh_session ''/proj/a.txt'' scenario_target
     = (fresh_session\<lparr>cachedRemoteDirectories := Some {''/web''}\<rparr>,
        [BeforeDeploy ''/proj/a.txt'' ''/web'', Cwd ''/web'', ReadFile ''/proj/a.txt'',
         Put ''/web/a.txt'' [1, 2, 3],
         Completed \<lparr>canceled = False, error = None, file_path = ''/proj/a.txt'',
                    target = scenario_target\<rparr>])"
  by (simp add: scenario_defs)

lemma scenario_cached_file:
  "deployFiles posix both_hooks scenario_target [(''/proj/a.txt'', calm)]
       (fresh_session\<lparr>cachedRemoteDirectories := Some {''/web''}\<rparr>)
     = (fresh_session\<lparr>cachedRemoteDirectories := Some {''/web''}\<rparr>,
        [BeforeDeploy ''/proj/a.txt'' ''/web'', ReadFile ''/proj/a.txt'',
         Put ''/web/a.txt'' [1, 2, 3],
         Completed \<lparr>canceled = False, error = None, file_path = ''/proj/a.txt'',
                    target = scenario_target\<rparr>])"
  by (simp add: scenario_defs)

lemma scenario_failed_check:
  "deployFileWithContext posix both_hooks
       (calm\<lparr>cwd_result := Rejected (Some (Error ''550 no such directory'')),
             mkdir_result := Rejected (Some (Error ''550 permission denied''))\<rparr>)
       fresh_session ''/proj/a.txt'' scenario_target
     = (fresh_session,
        [BeforeDeploy ''/proj/a.txt'' ''/web'', Cwd ''/web'', Mkdir ''/web'',
         Completed \<lparr>canceled = False, error = Some (Error ''550 permission denied''),
                    file_path = ''/proj/a.txt'', target = scenario_target\<rparr>])"
  by (simp add: scenario_defs)

lemma scenario_cancel_in_put:
  "deployFileWithContext posix both_hooks (calm\<lparr>cancel_in_put := True\<rparr>) fresh_session
       ''/proj/a.txt'' scenario_target
     = (\<lparr>cachedRemoteDirectories = Some {''/web''},
         connection = Some \<lparr>kind = FtpClient, own_connection = None\<rparr>,
         hasCancelled = True\<rparr>,
        [BeforeDeploy ''/proj/a.txt'' ''/web'', Cwd ''/web'', ReadFile ''/proj/a.txt'',
         Put ''/web/a.txt'' [1, 2, 3],
         Completed \<lparr>canceled = True, error = None, file_path = ''/proj/a.txt'',
                    target = scenario_target\<rparr>])"
  by (simp add: scenario_defs)

lemma scenario_cancel_in_get:
  "downloadFileWithContext posix both_hooks (calm\<lparr>cancel_in_get := True\<rparr>) fresh_session
       ''/proj/a.txt'' scenario_target
     = (\<lparr>cachedRemoteDirectories = Some {},
         connection = Some \<lparr>kind = FtpClient, own_connection = None\<rparr>,
         hasCancelled = True\<rparr>,
        [BeforeDeploy ''/proj/a.txt'' ''/web'', Get ''/web/a.txt'',
         Completed \<lparr>canceled = True, error = None, file_path = ''/proj/a.txt'',
                    target = scenario_target\<rparr>],
        Resolved (Some [1, 2, 3]))"
  by (simp add: scenario_defs)

text \<open>
  C4, as amended. The check of the cancellation flag comes before the path resolution. For a
  file whose relative path cannot be resolved, the call leaves the session as it is and
  issues no network call; its only effect is the completion hook, which reports the
  resolution error when the session is not cancelled, and a cancelled outcome without an
  error when the flag is already set.
\<close>

theorem unresolved_path_outcome:
  assumes "toRelativeTargetPath x f t (baseDirectory opts) = None"
  shows "deployFileWithContext x opts env ctx f t
           = (ctx, if onCompleted opts
                   then [Completed \<lparr>canceled = hasCancelled ctx,
                                    error = (if hasCancelled ctx then None
                                             else Some (Error ''relativePaths.couldNotResolve'')),
                                    file_path = f, target = t\<rparr>]
                   else [])
         \<and> filter is_network_call (snd (deployFileWithContext x opts env ctx f t)) = []"
  using assms by (simp add: deployFileWithContext_def completed_def)

theorem unresolved_path_outcome_witness:
  "toRelativeTargetPath posix ''/elsewhere/x.txt'' scenario_target (baseDirectory both_hooks) = None
   \<and> deployFileWithContext posix both_hooks calm fresh_session ''/elsewhere/x.txt'' scenario_target
       = (fresh_session,
          [Completed \<lparr>canceled = False, error = Some (Error ''relativePaths.couldNotResolve''),
                      file_path = ''/elsewhere/x.txt'', target = scenario_target\<rparr>])"
proof -
  have a: "toRelativeTargetPath posix ''/elsewhere/x.txt'' scenario_target (baseDirectory both_hooks) = None"
    by (simp add: posix_def relative_to_base_def both_hooks_def)
  have b: "onCompleted both_hooks" "\<not> hasCancelled fresh_session"
    by (simp_all add: both_hooks_def fresh_session_def new_context_def)
  from unresolved_path_outcome [OF a, of calm fresh_session] a b show ?thesis by simp
qed

text \<open>
  C4 as stated puts the resolution first and expects an error outcome even in a cancelled
  session. With the flag set, the file outside the base directory is reported as cancelled
  and without an error.
\<close>

theorem cancelled_session_hides_unresolved_path:
  "toRelativeTargetPath posix ''/elsewhere/x.txt'' scenario_target (baseDirectory both_hooks) = None
   \<and> hasCancelled (fresh_session\<lparr>hasCancelled := True\<rparr>)
   \<and> snd (deployFileWithContext posix both_hooks calm (fresh_session\<lparr>hasCancelled := True\<rparr>)
             ''/elsewhere/x.txt'' scenario_target)
       = [Completed \<lparr>canceled = True, error = None,
                    file_path = ''/elsewhere/x.txt'', target = scenario_target\<rparr>]"
  by (simp add: deployFileWithContext_def completed_def posix_def relative_to_base_def
        both_hooks_def fresh_session_def new_context_def)

text \<open>
  C5, as amended. One file issues at most one \<open>cwd\<close> and at most one \<open>mkdir\<close>, both for its
  own parent directory, and only when the session is not cancelled on entry and the lookup
  in the cache misses. A file that gets as far as reading its local file leaves its parent
  directory in the cache; a file that does not (as when \<open>cwd\<close> and \<open>mkdir\<close> both fail)
  leaves the cache as it was. A file whose path resolves and whose parent directory is not
  in the cache, processed while the session is not cancelled and has its cache, issues
  \<open>cwd\<close> for it, and \<open>mkdir\<close> as well exactly when \<open>cwd\<close> is rejected with an error and no
  cancellation was raised meanwhile; so a check that failed is repeated by the next such
  file. A directory that is in the cache is never the
  argument of \<open>cwd\<close> or \<open>mkdir\<close> again, for any sequence of files processed afterwards in
  the session.
\<close>

theorem directory_checks_until_cached:
  "length (filter is_cwd (snd (deployFileWithContext x opts env ctx f t))) \<le> 1
   \<and> length (filter is_mkdir (snd (deployFileWithContext x opts env ctx f t))) \<le> 1
   \<and> (e \<in> set (snd (deployFileWithContext x opts env ctx f t)) \<and> (is_cwd e \<or> is_mkdir e)
        \<longrightarrow> \<not> hasCancelled ctx
            \<and> (\<exists>rel. toRelativeTargetPath x f t (baseDirectory opts) = Some rel
              \<and> (let td = toFTPPath x (path_dirname x
                             (toFTPPath x (path_join x (getDirFromTarget t) rel)))
                 in (e = Cwd td \<or> e = Mkdir td) \<and> \<not> is_cached ctx td)))
   \<and> (ReadFile f' \<in> set (snd (deployFileWithContext x opts env ctx f t))
        \<longrightarrow> (\<exists>rel. toRelativeTargetPath x f t (baseDirectory opts) = Some rel
              \<and> is_cached (fst (deployFileWithContext x opts env ctx f t))
                   (toFTPPath x (path_dirname x
                      (toFTPPath x (path_join x (getDirFromTarget t) rel))))))
   \<and> (ReadFile f \<notin> set (snd (deployFileWithContext x opts env1 ctx1 f t))
        \<longrightarrow> cachedRemoteDirectories (fst (deployFileWithContext x opts env1 ctx1 f t))
              = cachedRemoteDirectories ctx1)
   \<and> (\<not> hasCancelled ctx2 \<and> toRelativeTargetPath x f t (baseDirectory opts) = Some rel2
        \<and> cachedRemoteDirectories ctx2 \<noteq> None
        \<and> \<not> is_cached ctx2 (toFTPPath x (path_dirname x
                               (toFTPPath x (path_join x (getDirFromTarget t) rel2))))
        \<longrightarrow> filter is_cwd (snd (deployFileWithContext x opts env2 ctx2 f t))
              = [Cwd (toFTPPath x (path_dirname x
                        (toFTPPath x (path_join x (getDirFromTarget t) rel2))))]
            \<and> filter is_mkdir (snd (deployFileWithContext x opts env2 ctx2 f t))
              = (case cwd_result env2 of
                   Rejected (Some err) \<Rightarrow>
                     if cancel_in_cwd env2 then []
                     else [Mkdir (toFTPPath x (path_dirname x
                                    (toFTPPath x (path_join x (getDirFromTarget t) rel2))))]
                 | _ \<Rightarrow> []))
   \<and> (is_cached ctx0 d
        \<longrightarrow> Cwd d \<notin> set (snd (deployFiles x opts t fs ctx0))
            \<and> Mkdir d \<notin> set (snd (deployFiles x opts t fs ctx0)))"
  using deploy_directory_call_counts [of x opts env ctx f t]
    deploy_directory_calls [of e x opts env ctx f t]
    deploy_caches [of f' x opts env ctx f t]
    deploy_without_read [of f x opts env1 ctx1 t]
    deploy_uncached_checks [of ctx2 x f t opts rel2 env2]
    deployFiles_cached [of ctx0 d x opts t fs]
  by blast

theorem directory_checks_until_cached_witness:
  "Cwd ''/web'' \<in> set (snd (deployFileWithContext posix both_hooks calm fresh_session
                               ''/proj/a.txt'' scenario_target))
   \<and> is_cwd (Cwd ''/web'')
   \<and> \<not> hasCancelled fresh_session
   \<and> toRelativeTargetPath posix ''/proj/a.txt'' scenario_target (baseDirectory both_hooks) = Some ''a.txt''
   \<and> cachedRemoteDirectories fresh_session \<noteq> None
   \<and> \<not> is_cached fresh_session ''/web''
   \<and> ReadFile ''/proj/a.txt'' \<in> set (snd (deployFileWithContext posix both_hooks calm fresh_session
                                             ''/proj/a.txt'' scenario_target))
   \<and> is_cached (fst (deployFileWithContext posix both_hooks calm fresh_session
                        ''/proj/a.txt'' scenario_target)) ''/web''
   \<and> ReadFile ''/proj/a.txt''
        \<notin> set (snd (deployFileWithContext posix both_hooks
                      (calm\<lparr>cwd_result := Rejected (Some (Error ''550 no such directory'')),
                            mkdir_result := Rejected (Some (Error ''550 permission denied''))\<rparr>)
                      fresh_session ''/proj/a.txt'' scenario_target))
   \<and> cachedRemoteDirectories
        (fst (deployFileWithContext posix both_hooks
                (calm\<lparr>cwd_result := Rejected (Some (Error ''550 no such directory'')),
                      mkdir_result := Rejected (Some (Error ''550 permission denied''))\<rparr>)
                fresh_session ''/proj/a.txt'' scenario_target))
       = cachedRemoteDirectories fresh_session
   \<and> filter is_cwd
        (snd (deployFileWithContext posix both_hooks
                (calm\<lparr>cwd_result := Rejected (Some (Error ''550 no such directory'')),
                      mkdir_result := Rejected (Some (Error ''550 permission denied''))\<rparr>)
                fresh_session ''/proj/a.txt'' scenario_target)) = [Cwd ''/web'']
   \<and> filter is_mkdir
        (snd (deployFileWithContext posix both_hooks
                (calm\<lparr>cwd_result := Rejected (Some (Error ''550 no such directory'')),
                      mkdir_result := Rejected (Some (Error ''550 permission denied''))\<rparr>)
                fresh_session ''/proj/a.txt'' scenario_target)) = [Mkdir ''/web'']
   \<and> is_cached (fresh_session\<lparr>cachedRemoteDirectories := Some {''/web''}\<rparr>) ''/web''
   \<and> Cwd ''/web'' \<notin> set (snd (deployFiles posix both_hooks scenario_target [(''/proj/a.txt'', calm)]
                                 (fresh_session\<lparr>cachedRemoteDirectories := Some {''/web''}\<rparr>)))
   \<and> Mkdir ''/web'' \<notin> set (snd (deployFiles posix both_hooks scenario_target [(''/proj/a.txt'', calm)]
                                 (fresh_session\<lparr>cachedRemoteDirectories := Some {''/web''}\<rparr>)))"
proof -
  have c: "is_cached (fresh_session\<lparr>cachedRemoteDirectories := Some {''/web''}\<rparr>) ''/web''"
    by (simp add: is_cached_def cache_entry_missing_def)
  have n: "\<not> is_cached fresh_session ''/web''" "\<not> hasCancelled fresh_session"
      "cachedRemoteDirectories fresh_session \<noteq> None"
    by (simp_all add: is_cached_def cache_entry_missing_def fresh_session_def new_context_def
          Object_prototype_keys_def)
  have r: "toRelativeTargetPath posix ''/proj/a.txt'' scenario_target (baseDirectory both_hooks) = Some ''a.txt''"
    by (simp add: posix_def relative_to_base_def both_hooks_def)
  have d: "toFTPPath posix (path_dirname posix
             (toFTPPath posix (path_join posix (getDirFromTarget scenario_target) ''a.txt''))) = ''/web''"
    by (simp add: posix_def toFTPPath_def getDirFromTarget_def scenario_target_def
          dirname_at_last_slash_def Let_def)
  have v: "cwd_result (calm\<lparr>cwd_result := Rejected (Some (Error ''550 no such directory'')),
                            mkdir_result := Rejected (Some (Error ''550 permission denied''))\<rparr>)
             = Rejected (Some (Error ''550 no such directory''))"
      "\<not> cancel_in_cwd (calm\<lparr>cwd_result := Rejected (Some (Error ''550 no such directory'')),
                            mkdir_result := Rejected (Some (Error ''550 permission denied''))\<rparr>)"
    by (simp_all add: calm_def)
  from directory_checks_until_cached [of posix both_hooks calm fresh_session "''/proj/a.txt''"
      scenario_target "Cwd ''/web''" "''/proj/a.txt''"
      "calm\<lparr>cwd_result := Rejected (Some (Error ''550 no such directory'')),
            mkdir_result := Rejected (Some (Error ''550 permission denied''))\<rparr>" fresh_session
      fresh_session "''a.txt''"
      "calm\<lparr>cwd_result := Rejected (Some (Error ''550 no such directory'')),
            mkdir_result := Rejected (Some (Error ''550 permission denied''))\<rparr>"
      "fresh_session\<lparr>cachedRemoteDirectories := Some {''/web''}\<rparr>" "''/web''"
      "[(''/proj/a.txt'', calm)]"] c n r d v
  show ?thesis
    by (simp add: scenario_first_file scenario_cached_file scenario_failed_check)
qed

text \<open>
  C5 as stated allows one \<open>cwd\<close> and one \<open>mkdir\<close> per directory and session, also after a
  failure. Two files with the parent \<open>/web/sub\<close>, on a server that refuses both the probe and
  the creation: the second file probes and tries to create the directory again.
\<close>

theorem failed_directory_is_checked_again:
  "filter (\<lambda>e. is_cwd e \<or> is_mkdir e)
     (snd (deployFiles posix both_hooks scenario_target
             [(''/proj/sub/b.txt'', calm\<lparr>cwd_result := Rejected (Some (Error ''550 no such directory'')),
                                         mkdir_result := Rejected (Some (Error ''550 permission denied''))\<rparr>),
              (''/proj/sub/c.txt'', calm\<lparr>cwd_result := Rejected (Some (Error ''550 no such directory'')),
                                         mkdir_result := Rejected (Some (Error ''550 permission denied''))\<rparr>)]
             fresh_session))
   = [Cwd ''/web/sub'', Mkdir ''/web/sub'', Cwd ''/web/sub'', Mkdir ''/web/sub'']"
  by (simp add: scenario_defs)

text \<open>
  C6, as amended. The pre-transfer hook is called when it is supplied, the session is not
  cancelled on entry and the path resolves; it is then the first thing the call does to the
  outside, with the parent directory as destination, and it is called once. So it comes
  before the lookup in the cache, before \<open>cwd\<close> and \<open>mkdir\<close>, and before every later check
  of the cancellation flag, the read and the \<open>put\<close>. Otherwise it is not called.
\<close>

theorem hook_is_first_event:
  "if onBeforeDeploy opts \<and> \<not> hasCancelled ctx \<and> toRelativeTargetPath x f t (baseDirectory opts) \<noteq> None
   then \<exists>rel rest.
          toRelativeTargetPath x f t (baseDirectory opts) = Some rel
          \<and> snd (deployFileWithContext x opts env ctx f t)
              = BeforeDeploy f (toFTPPath x (path_dirname x
                   (toFTPPath x (path_join x (getDirFromTarget t) rel)))) # rest
          \<and> filter is_hook rest = []
   else filter is_hook (snd (deployFileWithContext x opts env ctx f t)) = []"
proof -
  have u: "\<And>tf td init c. filter is_hook (snd (uploadFile opts env f t tf td init c)) = []"
    using uploadFile_no_directory_calls by blast
  have c: "\<And>c err. filter is_hook (completed opts c f t err) = []"
    by (simp add: completed_def)
  show ?thesis
    using u c
    by (auto simp: deployFileWithContext_def Let_def case_prod_beta
          split: option.splits sum.splits bool.splits promise.splits)
qed

theorem hook_is_first_event_witness:
  "onBeforeDeploy both_hooks \<and> \<not> hasCancelled fresh_session
   \<and> toRelativeTargetPath posix ''/proj/sub/b.txt'' scenario_target (baseDirectory both_hooks) = Some ''sub/b.txt''
   \<and> (\<exists>rest. snd (deployFileWithContext posix both_hooks calm fresh_session ''/proj/sub/b.txt'' scenario_target)
               = BeforeDeploy ''/proj/sub/b.txt'' ''/web/sub'' # rest
             \<and> filter is_hook rest = [])"
proof -
  have a: "onBeforeDeploy both_hooks" "\<not> hasCancelled fresh_session"
    by (simp_all add: both_hooks_def fresh_session_def new_context_def)
  have b: "toRelativeTargetPath posix ''/proj/sub/b.txt'' scenario_target (baseDirectory both_hooks) = Some ''sub/b.txt''"
    by (simp add: posix_def relative_to_base_def both_hooks_def)
  have d: "toFTPPath posix (path_dirname posix
             (toFTPPath posix (path_join posix (getDirFromTarget scenario_target) ''sub/b.txt''))) = ''/web/sub''"
    by (simp add: posix_def toFTPPath_def getDirFromTarget_def scenario_target_def
          dirname_at_last_slash_def Let_def)
  from hook_is_first_event [of both_hooks fresh_session posix "''/proj/sub/b.txt''" scenario_target calm]
    a b d show ?thesis by simp
qed

text \<open>
  C6 as stated has the hook wait for the directory step. For the file \<open>/proj/sub/b.txt\<close>,
  whose parent directory is absent on the server, \<open>cwd\<close> and \<open>mkdir\<close> are both issued after
  the hook has been called.
\<close>

theorem hook_fires_before_directory_check:
  "directory_calls_after_hook
     (snd (deployFileWithContext posix both_hooks
             (calm\<lparr>cwd_result := Rejected (Some (Error ''550 no such directory'')),
                   mkdir_result := Resolved ''/web/sub''\<rparr>)
             fresh_session ''/proj/sub/b.txt'' scenario_target))
   = [Cwd ''/web/sub'', Mkdir ''/web/sub'']"
  by (simp add: deployFileWithContext_def uploadFile_def completed_def posix_def
        relative_to_base_def both_hooks_def fresh_session_def new_context_def calm_def
        toFTPPath_def getDirFromTarget_def scenario_target_def dirname_at_last_slash_def
        cache_entry_missing_def Object_prototype_keys_def pending_def Let_def)

text \<open>
  C7. The completion hook is claimed to be called exactly once for every file, whichever
  way the flow ends. The upload of \<open>/proj/a.txt\<close> with both hooks supplied: the host raises
  the cancellation while \<open>put\<close> is pending, the cancellation hook closes the connection, and
  \<open>put\<close> never settles. The call ends with \<open>put\<close> as its last action on the outside and the
  completion hook is not called. The download of the same file with \<open>get\<close> in place of \<open>put\<close>:
  the hook is not called and the returned promise stays pending. An upload on a session
  whose cache \<open>destroy\<close> has deleted: the lookup throws after the pre-transfer hook, and the
  completion hook is not called.
\<close>

theorem unsettled_call_leaves_no_completion:
  "deployFileWithContext posix both_hooks (calm\<lparr>cancel_in_put := True, put_result := Pending\<rparr>)
       fresh_session ''/proj/a.txt'' scenario_target
     = (\<lparr>cachedRemoteDirectories = Some {''/web''},
         connection = Some \<lparr>kind = FtpClient, own_connection = None\<rparr>,
         hasCancelled = True\<rparr>,
        [BeforeDeploy ''/proj/a.txt'' ''/web'', Cwd ''/web'', ReadFile ''/proj/a.txt'',
         Put ''/web/a.txt'' [1, 2, 3]])
   \<and> filter is_completion
        (snd (deployFileWithContext posix both_hooks
                (calm\<lparr>cancel_in_put := True, put_result := Pending\<rparr>)
                fresh_session ''/proj/a.txt'' scenario_target)) = []
   \<and> downloadFileWithContext posix both_hooks (calm\<lparr>cancel_in_get := True, get_result := Pending\<rparr>)
       fresh_session ''/proj/a.txt'' scenario_target
     = (\<lparr>cachedRemoteDirectories = Some {},
         connection = Some \<lparr>kind = FtpClient, own_connection = None\<rparr>,
         hasCancelled = True\<rparr>,
        [BeforeDeploy ''/proj/a.txt'' ''/web'', Get ''/web/a.txt''], Pending)
   \<and> snd (deployFileWithContext posix both_hooks calm
             (fresh_session\<lparr>cachedRemoteDirectories := None\<rparr>) ''/proj/a.txt'' scenario_target)
     = [BeforeDeploy ''/proj/a.txt'' ''/web'', Uncaught TypeError]"
  by (simp add: scenario_defs)

text \<open>
  C9. The \<open>canceled\<close> field of a completion outcome is the value of the session's flag when
  the hook is called, in both orchestrators. In particular, when the cancellation is raised
  while \<open>put\<close> (or \<open>get\<close>) is pending and the operation then resolves, the outcome is
  \<open>canceled = true\<close> without an error, although the flag was not set when the file started.
\<close>

theorem canceled_flag_read_at_completion:
  "(Completed out \<in> set (snd (deployFileWithContext x opts env ctx f t))
      \<longrightarrow> canceled out = hasCancelled (fst (deployFileWithContext x opts env ctx f t)))
   \<and> (Completed out' \<in> set (fst (snd (downloadFileWithContext x opts env' ctx' f t)))
      \<longrightarrow> canceled out' = hasCancelled (fst (downloadFileWithContext x opts env' ctx' f t)))
   \<and> (onCompleted opts \<and> Put p b \<in> set (snd (deployFileWithContext x opts env ctx f t))
        \<and> cancel_in_put env \<and> put_result env = Resolved echoed
      \<longrightarrow> last (snd (deployFileWithContext x opts env ctx f t))
            = Completed \<lparr>canceled = True, error = None, file_path = f, target = t\<rparr>)
   \<and> (onCompleted opts \<and> Get p' \<in> set (fst (snd (downloadFileWithContext x opts env' ctx' f t)))
        \<and> cancel_in_get env' \<and> get_result env' = Resolved data
      \<longrightarrow> last (fst (snd (downloadFileWithContext x opts env' ctx' f t)))
            = Completed \<lparr>canceled = True, error = None, file_path = f, target = t\<rparr>)"
  using deploy_flag_at_completion [of out x opts env ctx f t]
    download_flag_at_completion [of out' x opts env' ctx' f t]
    upload_cancelled_in_put [of opts p b x env ctx f t echoed]
    download_cancelled_in_get [of opts p' x env' ctx' f t data]
  by blast

theorem canceled_flag_read_at_completion_witness:
  "\<not> hasCancelled fresh_session \<and> onCompleted both_hooks
   \<and> Put ''/web/a.txt'' [1, 2, 3]
        \<in> set (snd (deployFileWithContext posix both_hooks (calm\<lparr>cancel_in_put := True\<rparr>)
                      fresh_session ''/proj/a.txt'' scenario_target))
   \<and> cancel_in_put (calm\<lparr>cancel_in_put := True\<rparr>)
   \<and> put_result (calm\<lparr>cancel_in_put := True\<rparr>) = Resolved [1, 2, 3]
   \<and> last (snd (deployFileWithContext posix both_hooks (calm\<lparr>cancel_in_put := True\<rparr>)
                  fresh_session ''/proj/a.txt'' scenario_target))
       = Completed \<lparr>canceled = True, error = None, file_path = ''/proj/a.txt'', target = scenario_target\<rparr>
   \<and> Get ''/web/a.txt''
        \<in> set (fst (snd (downloadFileWithContext posix both_hooks (calm\<lparr>cancel_in_get := True\<rparr>)
                           fresh_session ''/proj/a.txt'' scenario_target)))
   \<and> cancel_in_get (calm\<lparr>cancel_in_get := True\<rparr>)
   \<and> get_result (calm\<lparr>cancel_in_get := True\<rparr>) = Resolved [1, 2, 3]
   \<and> last (fst (snd (downloadFileWithContext posix both_hooks (calm\<lparr>cancel_in_get := True\<rparr>)
                       fresh_session ''/proj/a.txt'' scenario_target)))
       = Completed \<lparr>canceled = True, error = None, file_path = ''/proj/a.txt'', target = scenario_target\<rparr>
   \<and> hasCancelled (fst (deployFileWithContext posix both_hooks (calm\<lparr>cancel_in_put := True\<rparr>)
                          fresh_session ''/proj/a.txt'' scenario_target))"
proof -
  have a: "\<not> hasCancelled fresh_session" "onCompleted both_hooks"
    by (simp_all add: fresh_session_def new_context_def both_hooks_def)
  have e: "cancel_in_put (calm\<lparr>cancel_in_put := True\<rparr>)"
      "put_result (calm\<lparr>cancel_in_put := True\<rparr>) = Resolved [1, 2, 3]"
      "cancel_in_get (calm\<lparr>cancel_in_get := True\<rparr>)"
      "get_result (calm\<lparr>cancel_in_get := True\<rparr>) = Resolved [1, 2, 3]"
    by (simp_all add: calm_def)
  from canceled_flag_read_at_completion [of
      "\<lparr>canceled = True, error = None, file_path = ''/proj/a.txt'', target = scenario_target\<rparr>"
      posix both_hooks "calm\<lparr>cancel_in_put := True\<rparr>" fresh_session "''/proj/a.txt''" scenario_target
      "\<lparr>canceled = True, error = None, file_path = ''/proj/a.txt'', target = scenario_target\<rparr>"
      "calm\<lparr>cancel_in_get := True\<rparr>" fresh_session
      "''/web/a.txt''" "[1, 2, 3]" "[1, 2, 3]" "''/web/a.txt''" "[1, 2, 3]"] a e
  show ?thesis
    by (simp add: scenario_cancel_in_put scenario_cancel_in_get)
qed

end
